theory Spec2Isabelle
  imports Main "HOL-Library.Multiset"
begin

section \<open>Values\<close>

text \<open>
  Identifiers are UUIDs, timestamps and dates are points on a line; all three are
  modelled as natural numbers.  Text entered by the user is a JavaScript string: a
  sequence of UTF-16 code units, so that \<open>length\<close> is JavaScript's \<open>.length\<close>.
  Status values and messages are plain ASCII strings.
\<close>

type_synonym uuid = nat
type_synonym timestamptz = nat
type_synonym date = nat
type_synonym js_string = "nat list"

text \<open>
  \<open>String.prototype.trim\<close> removes ECMAScript white space and line terminators
  from both ends.
\<close>

definition is_white_space :: "nat \<Rightarrow> bool" where
  "is_white_space c \<longleftrightarrow>
     c \<in> {0x9, 0xA, 0xB, 0xC, 0xD, 0x20, 0xA0, 0x1680, 0x2028, 0x2029, 0x202F, 0x205F,
          0x3000, 0xFEFF} \<or> (0x2000 \<le> c \<and> c \<le> 0x200A)"

definition trim :: "js_string \<Rightarrow> js_string" where
  "trim s = rev (dropWhile is_white_space (rev (dropWhile is_white_space s)))"

text \<open>The idiom \<open>s || null\<close>: the empty string is falsy.\<close>

definition or_null :: "js_string \<Rightarrow> js_string option" where
  "or_null s = (if s = [] then None else Some s)"

section \<open>The tables of the migration\<close>

record profile =
  profile_id :: uuid
  profile_email :: "js_string option"
  profile_created_at :: timestamptz

record application =
  app_id :: uuid
  app_user_id :: uuid
  app_company :: js_string
  app_position :: js_string
  app_status :: string
  app_notes :: "js_string option"
  app_created_at :: timestamptz
  app_updated_at :: timestamptz

record task =
  task_id :: uuid
  task_application_id :: uuid
  task_user_id :: uuid
  task_title :: js_string
  task_due_date :: "date option"
  task_completed :: bool
  task_notes :: "js_string option"
  task_created_at :: timestamptz
  task_updated_at :: timestamptz

record database =
  profiles :: "profile list"
  applications :: "application list"
  tasks :: "task list"

text \<open>
  A statement either fails as a whole, leaving the database as it was, or succeeds.
  The client only tests whether an error came back; the kind is kept for the reader.
\<close>

datatype pg_error =
    Rls_violation
  | Check_violation
  | Unique_violation
  | Foreign_key_violation
  | Multiple_rows

text \<open>\<open>CONSTRAINT valid_status CHECK (status IN (...))\<close>\<close>

definition valid_status :: "string \<Rightarrow> bool" where
  "valid_status s \<longleftrightarrow> s \<in> set [''applied'', ''interview'', ''offer'', ''rejected'']"

text \<open>
  Every policy of the migration is the predicate \<open>auth.uid() = user_id\<close>; for an
  anonymous session \<open>auth.uid()\<close> is null and the predicate is not true.
\<close>

definition rls_own :: "uuid option \<Rightarrow> uuid \<Rightarrow> bool" where
  "rls_own auth_uid owner \<longleftrightarrow> auth_uid = Some owner"

text \<open>\<open>FOR SELECT USING (auth.uid() = user_id)\<close> on applications.\<close>

definition select_applications :: "uuid option \<Rightarrow> database \<Rightarrow> application list" where
  "select_applications auth_uid db =
     filter (\<lambda>a. rls_own auth_uid (app_user_id a)) (applications db)"

text \<open>
  The values the client sends in an insert into applications.  \<open>user_id\<close> is
  \<open>user?.id\<close>, absent without a session.
\<close>

record application_insert =
  ins_user_id :: "uuid option"
  ins_company :: js_string
  ins_position :: js_string
  ins_status :: string
  ins_notes :: "js_string option"

text \<open>
  Insert into applications: the id is drawn by \<open>uuid_generate_v4()\<close> and both
  timestamps default to \<open>NOW()\<close>; the two are arguments here.  The row must pass the
  insert policy, the status check, the primary key and the foreign key to profiles.
\<close>

definition insert_application ::
  "uuid option \<Rightarrow> application_insert \<Rightarrow> uuid \<Rightarrow> timestamptz \<Rightarrow> database
     \<Rightarrow> pg_error + database" where
  "insert_application auth_uid v new_id now db =
     (case ins_user_id v of
        None \<Rightarrow> Inl Rls_violation
      | Some u \<Rightarrow>
          if \<not> rls_own auth_uid u then Inl Rls_violation
          else if \<not> valid_status (ins_status v) then Inl Check_violation
          else if new_id \<in> set (map app_id (applications db)) then Inl Unique_violation
          else if u \<notin> set (map profile_id (profiles db)) then Inl Foreign_key_violation
          else Inr (db\<lparr>applications := applications db @
                 [\<lparr>app_id = new_id, app_user_id = u, app_company = ins_company v,
                   app_position = ins_position v, app_status = ins_status v,
                   app_notes = ins_notes v, app_created_at = now,
                   app_updated_at = now\<rparr>]\<rparr>))"

text \<open>
  Update of applications, filtered by \<open>.eq('id', rid)\<close>.  The update policy
  selects the rows; each selected row gets the assignments \<open>upd\<close>, then the trigger
  \<open>update_applications_updated_at\<close> sets \<open>updated_at\<close> to \<open>NOW()\<close>.  The new
  row must pass the policy again (an update policy without \<open>WITH CHECK\<close> checks its
  \<open>USING\<close> predicate on the new row) and the status check.  A statement that selects
  no row succeeds and changes nothing.
\<close>

definition applications_hit :: "uuid option \<Rightarrow> uuid \<Rightarrow> application \<Rightarrow> bool" where
  "applications_hit auth_uid rid a \<longleftrightarrow> app_id a = rid \<and> rls_own auth_uid (app_user_id a)"

definition update_updated_at_application :: "timestamptz \<Rightarrow> application \<Rightarrow> application" where
  "update_updated_at_application now a = a\<lparr>app_updated_at := now\<rparr>"

definition update_applications ::
  "uuid option \<Rightarrow> uuid \<Rightarrow> (application \<Rightarrow> application) \<Rightarrow> timestamptz \<Rightarrow> database
     \<Rightarrow> pg_error + database" where
  "update_applications auth_uid rid upd now db =
     (let new = (\<lambda>a. update_updated_at_application now (upd a));
          hits = filter (applications_hit auth_uid rid) (applications db)
      in if list_ex (\<lambda>a. \<not> rls_own auth_uid (app_user_id (new a))) hits
           then Inl Rls_violation
         else if list_ex (\<lambda>a. \<not> valid_status (app_status (new a))) hits
           then Inl Check_violation
         else Inr (db\<lparr>applications :=
                 map (\<lambda>a. if applications_hit auth_uid rid a then new a else a)
                   (applications db)\<rparr>))"

text \<open>
  Delete from applications, filtered by \<open>.eq('id', rid)\<close>.  The delete policy selects
  the rows.  \<open>tasks.application_id\<close> references \<open>applications(id) ON DELETE CASCADE\<close>:
  every task that points to a deleted row goes with it, in the same statement and
  whoever owns the task (referential actions are not subject to row security).
\<close>

definition delete_applications :: "uuid option \<Rightarrow> uuid \<Rightarrow> database \<Rightarrow> pg_error + database" where
  "delete_applications auth_uid rid db =
     (let gone = filter (applications_hit auth_uid rid) (applications db)
      in Inr (db\<lparr>applications :=
                  filter (\<lambda>a. \<not> applications_hit auth_uid rid a) (applications db),
                tasks :=
                  filter (\<lambda>t. task_application_id t \<notin> set (map app_id gone)) (tasks db)\<rparr>))"

text \<open>\<open>FOR SELECT USING (auth.uid() = user_id)\<close> on tasks.\<close>

definition select_tasks :: "uuid option \<Rightarrow> database \<Rightarrow> task list" where
  "select_tasks auth_uid db = filter (\<lambda>t. rls_own auth_uid (task_user_id t)) (tasks db)"

record task_insert =
  tins_user_id :: "uuid option"
  tins_application_id :: uuid
  tins_title :: js_string
  tins_due_date :: "date option"
  tins_notes :: "js_string option"

text \<open>
  Insert into tasks: \<open>completed\<close> defaults to false.  The insert policy looks at
  \<open>user_id\<close> only; \<open>application_id\<close> must name a row of applications, and the
  foreign key is checked against the whole table, not against what the caller may see.
\<close>

definition insert_task ::
  "uuid option \<Rightarrow> task_insert \<Rightarrow> uuid \<Rightarrow> timestamptz \<Rightarrow> database \<Rightarrow> pg_error + database" where
  "insert_task auth_uid v new_id now db =
     (case tins_user_id v of
        None \<Rightarrow> Inl Rls_violation
      | Some u \<Rightarrow>
          if \<not> rls_own auth_uid u then Inl Rls_violation
          else if new_id \<in> set (map task_id (tasks db)) then Inl Unique_violation
          else if tins_application_id v \<notin> set (map app_id (applications db))
            then Inl Foreign_key_violation
          else if u \<notin> set (map profile_id (profiles db)) then Inl Foreign_key_violation
          else Inr (db\<lparr>tasks := tasks db @
                 [\<lparr>task_id = new_id, task_application_id = tins_application_id v,
                   task_user_id = u, task_title = tins_title v,
                   task_due_date = tins_due_date v, task_completed = False,
                   task_notes = tins_notes v, task_created_at = now,
                   task_updated_at = now\<rparr>]\<rparr>))"

definition tasks_hit :: "uuid option \<Rightarrow> uuid \<Rightarrow> task \<Rightarrow> bool" where
  "tasks_hit auth_uid rid t \<longleftrightarrow> task_id t = rid \<and> rls_own auth_uid (task_user_id t)"

definition update_updated_at_task :: "timestamptz \<Rightarrow> task \<Rightarrow> task" where
  "update_updated_at_task now t = t\<lparr>task_updated_at := now\<rparr>"

text \<open>
  Update of tasks, filtered by \<open>.eq('id', rid)\<close>: as for applications, with the
  trigger \<open>update_tasks_updated_at\<close>; an \<open>application_id\<close> that changes must name
  a row of applications.
\<close>

definition update_tasks ::
  "uuid option \<Rightarrow> uuid \<Rightarrow> (task \<Rightarrow> task) \<Rightarrow> timestamptz \<Rightarrow> database \<Rightarrow> pg_error + database" where
  "update_tasks auth_uid rid upd now db =
     (let new = (\<lambda>t. update_updated_at_task now (upd t));
          hits = filter (tasks_hit auth_uid rid) (tasks db)
      in if list_ex (\<lambda>t. \<not> rls_own auth_uid (task_user_id (new t))) hits
           then Inl Rls_violation
         else if list_ex (\<lambda>t. task_application_id (new t) \<noteq> task_application_id t \<and>
                     task_application_id (new t) \<notin> set (map app_id (applications db)))
                   hits
           then Inl Foreign_key_violation
         else Inr (db\<lparr>tasks :=
                 map (\<lambda>t. if tasks_hit auth_uid rid t then new t else t) (tasks db)\<rparr>))"

text \<open>
  \<open>ORDER BY\<close>: the rows in an order that agrees with the comparison; rows that
  compare equal stay as they were.
\<close>

fun insert_by :: "('a \<Rightarrow> 'a \<Rightarrow> bool) \<Rightarrow> 'a \<Rightarrow> 'a list \<Rightarrow> 'a list" where
  "insert_by le x [] = [x]"
| "insert_by le x (y # ys) = (if le x y then x # y # ys else y # insert_by le x ys)"

definition order_by :: "('a \<Rightarrow> 'a \<Rightarrow> bool) \<Rightarrow> 'a list \<Rightarrow> 'a list" where
  "order_by le rows = foldr (insert_by le) rows []"

text \<open>
  \<open>.maybeSingle()\<close>: no row is null, one row is that row, more rows are an error.
\<close>

definition maybeSingle :: "'a list \<Rightarrow> pg_error + 'a option" where
  "maybeSingle rows =
     (case rows of [] \<Rightarrow> Inr None | [r] \<Rightarrow> Inr (Some r) | _ \<Rightarrow> Inl Multiple_rows)"

section \<open>Schema validation\<close>

text \<open>
  A Zod issue carries the path of the field and a message.  A string schema runs its
  checks in the order written: \<open>trim\<close> replaces the value, \<open>min\<close> and \<open>max\<close> each
  add an issue.  An object schema visits its keys in the order written, so the issues
  of \<open>company\<close> come before those of \<open>position\<close>, and \<open>parse\<close> throws exactly when
  the list is not empty.
\<close>

datatype zod_issue = Zod_issue (issue_path: string) (issue_message: string)

definition z_min :: "string \<Rightarrow> nat \<Rightarrow> string \<Rightarrow> js_string \<Rightarrow> zod_issue list" where
  "z_min path n msg s = (if length s < n then [Zod_issue path msg] else [])"

definition z_max :: "string \<Rightarrow> nat \<Rightarrow> string \<Rightarrow> js_string \<Rightarrow> zod_issue list" where
  "z_max path n msg s = (if length s > n then [Zod_issue path msg] else [])"

text \<open>
  \<open>z.object({company: z.string().trim().min(1, 'Company name is required').max(100),
  position: z.string().trim().min(1, 'Position is required').max(100),
  notes: z.string().max(1000).optional()})\<close>, applied to the three strings of the form.
  \<open>max\<close> has Zod's default message.
\<close>

definition applicationSchema :: "js_string \<Rightarrow> js_string \<Rightarrow> js_string \<Rightarrow> zod_issue list" where
  "applicationSchema company position notes =
     (z_min ''company'' 1 ''Company name is required'' (trim company) @
      z_max ''company'' 100 ''String must contain at most 100 character(s)'' (trim company)) @
     (z_min ''position'' 1 ''Position is required'' (trim position) @
      z_max ''position'' 100 ''String must contain at most 100 character(s)'' (trim position)) @
     z_max ''notes'' 1000 ''String must contain at most 1000 character(s)'' notes"

section \<open>The pages\<close>

datatype toast = Toast_error string | Toast_success string

subsection \<open>Applications\<close>

text \<open>
  \<open>handleSubmit\<close> of the Applications page.  \<open>user\<close> is the session's user, which
  is also what \<open>auth.uid()\<close> yields in the storage layer.
\<close>

definition Applications_handleSubmit ::
  "uuid option \<Rightarrow> js_string \<Rightarrow> js_string \<Rightarrow> string \<Rightarrow> js_string \<Rightarrow> uuid \<Rightarrow> timestamptz
     \<Rightarrow> database \<Rightarrow> database \<times> toast" where
  "Applications_handleSubmit user company position status notes new_id now db =
     (case applicationSchema company position notes of
        issue # _ \<Rightarrow> (db, Toast_error (issue_message issue))
      | [] \<Rightarrow>
         (case insert_application user
                 \<lparr>ins_user_id = user, ins_company = trim company,
                  ins_position = trim position, ins_status = status,
                  ins_notes = or_null (trim notes)\<rparr> new_id now db of
            Inl error \<Rightarrow> (db, Toast_error ''Failed to create application'')
          | Inr db' \<Rightarrow> (db', Toast_success ''Application created successfully'')))"

subsection \<open>ApplicationDetail\<close>

text \<open>
  \<open>fetchApplication\<close>: the row with the id of the route, as far as the select policy
  shows it.  An error and a null result take the same branch.
\<close>

definition fetchApplication :: "uuid option \<Rightarrow> uuid \<Rightarrow> database \<Rightarrow> toast + application" where
  "fetchApplication user rid db =
     (case maybeSingle (filter (\<lambda>a. app_id a = rid) (select_applications user db)) of
        Inr (Some data) \<Rightarrow> Inr data
      | _ \<Rightarrow> Inl (Toast_error ''Failed to load application''))"

text \<open>
  \<open>handleUpdate\<close>: the form is validated by the schema, then company, position,
  status and notes are written to the row with the id of the route.
\<close>

definition ApplicationDetail_handleUpdate ::
  "uuid option \<Rightarrow> uuid \<Rightarrow> js_string \<Rightarrow> js_string \<Rightarrow> string \<Rightarrow> js_string \<Rightarrow> timestamptz
     \<Rightarrow> database \<Rightarrow> database \<times> toast" where
  "ApplicationDetail_handleUpdate user rid company position status notes now db =
     (case applicationSchema company position notes of
        issue # _ \<Rightarrow> (db, Toast_error (issue_message issue))
      | [] \<Rightarrow>
         (case update_applications user rid
                 (\<lambda>a. a\<lparr>app_company := trim company, app_position := trim position,
                         app_status := status, app_notes := or_null (trim notes)\<rparr>)
                 now db of
            Inl error \<Rightarrow> (db, Toast_error ''Failed to update application'')
          | Inr db' \<Rightarrow> (db', Toast_success ''Application updated successfully'')))"

definition ApplicationDetail_handleDelete ::
  "uuid option \<Rightarrow> uuid \<Rightarrow> database \<Rightarrow> database \<times> toast" where
  "ApplicationDetail_handleDelete user rid db =
     (case delete_applications user rid db of
        Inl error \<Rightarrow> (db, Toast_error ''Failed to delete application'')
      | Inr db' \<Rightarrow> (db', Toast_success ''Application deleted successfully''))"

subsection \<open>Applications: the list\<close>



subsection \<open>Tasks\<close>

text \<open>
  \<open>z.object({title: z.string().trim().min(1, 'Title is required').max(200),
  notes: z.string().max(1000).optional()})\<close>
\<close>

definition taskSchema :: "js_string \<Rightarrow> js_string \<Rightarrow> zod_issue list" where
  "taskSchema title notes =
     (z_min ''title'' 1 ''Title is required'' (trim title) @
      z_max ''title'' 200 ''String must contain at most 200 character(s)'' (trim title)) @
     z_max ''notes'' 1000 ''String must contain at most 1000 character(s)'' notes"

text \<open>
  \<open>.order('due_date', { ascending: true, nullsFirst: false })
   .order('created_at', { ascending: false })\<close>
\<close>

definition tasks_order :: "task \<Rightarrow> task \<Rightarrow> bool" where
  "tasks_order a b =
     (case (task_due_date a, task_due_date b) of
        (Some x, Some y) \<Rightarrow> x < y \<or> (x = y \<and> task_created_at b \<le> task_created_at a)
      | (Some x, None) \<Rightarrow> True
      | (None, Some y) \<Rightarrow> False
      | (None, None) \<Rightarrow> task_created_at b \<le> task_created_at a)"

text \<open>
  The embedded resource \<open>applications (company, position)\<close>: the parent row as the
  select policy of applications shows it to the caller, or null.
\<close>

definition embed_application :: "uuid option \<Rightarrow> database \<Rightarrow> task \<Rightarrow> (js_string \<times> js_string) option" where
  "embed_application auth_uid db t =
     map_option (\<lambda>a. (app_company a, app_position a))
       (find (\<lambda>a. app_id a = task_application_id t) (select_applications auth_uid db))"

definition fetchTasks :: "uuid option \<Rightarrow> database \<Rightarrow> (task \<times> (js_string \<times> js_string) option) list" where
  "fetchTasks user db =
     order_by (\<lambda>r s. tasks_order (fst r) (fst s))
       (map (\<lambda>t. (t, embed_application user db t)) (select_tasks user db))"

text \<open>
  \<open>handleSubmit\<close> of the Tasks page.  \<open>applicationId\<close> and \<open>dueDate\<close> are strings
  of the form that are empty until something is chosen; the empty string is \<open>None\<close>.
\<close>

definition Tasks_handleSubmit ::
  "uuid option \<Rightarrow> js_string \<Rightarrow> uuid option \<Rightarrow> date option \<Rightarrow> js_string \<Rightarrow> uuid \<Rightarrow> timestamptz
     \<Rightarrow> database \<Rightarrow> database \<times> toast" where
  "Tasks_handleSubmit user title applicationId dueDate notes new_id now db =
     (case taskSchema title notes of
        issue # _ \<Rightarrow> (db, Toast_error (issue_message issue))
      | [] \<Rightarrow>
         (case applicationId of
            None \<Rightarrow> (db, Toast_error ''Please select an application'')
          | Some application_id \<Rightarrow>
             (case insert_task user
                     \<lparr>tins_user_id = user, tins_application_id = application_id,
                      tins_title = trim title, tins_due_date = dueDate,
                      tins_notes = or_null (trim notes)\<rparr> new_id now db of
                Inl error \<Rightarrow> (db, Toast_error ''Failed to create task'')
              | Inr db' \<Rightarrow> (db', Toast_success ''Task created successfully''))))"

text \<open>
  \<open>toggleComplete\<close> takes a task of the list on the page and writes the negation of
  its \<open>completed\<close>; without an error it shows no toast and fetches the list again.
\<close>

definition toggleComplete ::
  "uuid option \<Rightarrow> task \<Rightarrow> timestamptz \<Rightarrow> database \<Rightarrow> database \<times> toast option" where
  "toggleComplete user task now db =
     (case update_tasks user (task_id task)
             (\<lambda>t. t\<lparr>task_completed := \<not> task_completed task\<rparr>) now db of
        Inl error \<Rightarrow> (db, Some (Toast_error ''Failed to update task''))
      | Inr db' \<Rightarrow> (db', None))"

subsection \<open>TaskDetail\<close>


definition TaskDetail_handleUpdate ::
  "uuid option \<Rightarrow> uuid \<Rightarrow> js_string \<Rightarrow> uuid option \<Rightarrow> date option \<Rightarrow> bool \<Rightarrow> js_string
     \<Rightarrow> timestamptz \<Rightarrow> database \<Rightarrow> database \<times> toast" where
  "TaskDetail_handleUpdate user rid title applicationId dueDate completed notes now db =
     (case taskSchema title notes of
        issue # _ \<Rightarrow> (db, Toast_error (issue_message issue))
      | [] \<Rightarrow>
         (case applicationId of
            None \<Rightarrow> (db, Toast_error ''Please select an application'')
          | Some application_id \<Rightarrow>
             (case update_tasks user rid
                     (\<lambda>t. t\<lparr>task_title := trim title, task_application_id := application_id,
                             task_due_date := dueDate, task_completed := completed,
                             task_notes := or_null (trim notes)\<rparr>) now db of
                Inl error \<Rightarrow> (db, Toast_error ''Failed to update task'')
              | Inr db' \<Rightarrow> (db', Toast_success ''Task updated successfully''))))"

section \<open>A scenario\<close>

text \<open>
  Two users, each with one application; the first has three tasks, the second one.
  \<open>js\<close> writes an ASCII literal as a JavaScript string.
\<close>

definition js :: "string \<Rightarrow> js_string" where
  "js s = map of_char s"

definition scenario_db :: database where
  "scenario_db =
     \<lparr>profiles =
        [\<lparr>profile_id = 1, profile_email = None, profile_created_at = 0\<rparr>,
         \<lparr>profile_id = 2, profile_email = None, profile_created_at = 0\<rparr>],
      applications =
        [\<lparr>app_id = 10, app_user_id = 1, app_company = js ''Acme'',
          app_position = js ''Engineer'', app_status = ''applied'', app_notes = None,
          app_created_at = 1, app_updated_at = 1\<rparr>,
         \<lparr>app_id = 20, app_user_id = 2, app_company = js ''Globex'',
          app_position = js ''Analyst'', app_status = ''interview'',
          app_notes = Some (js ''referral''), app_created_at = 2, app_updated_at = 2\<rparr>],
      tasks =
        [\<lparr>task_id = 30, task_application_id = 10, task_user_id = 1,
          task_title = js ''Call'', task_due_date = Some 9, task_completed = False,
          task_notes = None, task_created_at = 3, task_updated_at = 3\<rparr>,
         \<lparr>task_id = 31, task_application_id = 10, task_user_id = 1,
          task_title = js ''Mail'', task_due_date = None, task_completed = False,
          task_notes = None, task_created_at = 4, task_updated_at = 4\<rparr>,
         \<lparr>task_id = 32, task_application_id = 10, task_user_id = 1,
          task_title = js ''Prepare'', task_due_date = Some 5, task_completed = True,
          task_notes = None, task_created_at = 5, task_updated_at = 5\<rparr>,
         \<lparr>task_id = 33, task_application_id = 20, task_user_id = 2,
          task_title = js ''Thank'', task_due_date = Some 7, task_completed = False,
          task_notes = None, task_created_at = 6, task_updated_at = 6\<rparr>]\<rparr>"

section \<open>Notions of the statements\<close>

text \<open>
  \<open>stripped s t\<close>: \<open>t\<close> is \<open>s\<close> without its leading and trailing white space.
\<close>

definition stripped :: "js_string \<Rightarrow> js_string \<Rightarrow> bool" where
  "stripped s t \<longleftrightarrow>
     (\<exists>l r. s = l @ t @ r \<and> (\<forall>c \<in> set l. is_white_space c) \<and> (\<forall>c \<in> set r. is_white_space c)) \<and>
     (t \<noteq> [] \<longrightarrow> \<not> is_white_space (hd t) \<and> \<not> is_white_space (last t))"

text \<open>The status of a fresh form: \<open>useState('applied')\<close>.\<close>

definition initial_status :: string where
  "initial_status = ''applied''"


section \<open>Trimming and validation\<close>

lemma dropWhile_all_iff: "(\<forall>x \<in> set (dropWhile P s). P x) \<longleftrightarrow> (\<forall>x \<in> set s. P x)"
  by (induction s) auto

lemma trim_Nil_iff: "trim s = [] \<longleftrightarrow> (\<forall>c \<in> set s. is_white_space c)"
  by (simp add: trim_def dropWhile_all_iff)

lemma trim_decompose:
  "\<exists>l r. s = l @ trim s @ r \<and> (\<forall>c \<in> set l. is_white_space c) \<and> (\<forall>c \<in> set r. is_white_space c)"
proof -
  let ?l = "takeWhile is_white_space s"
  let ?m = "dropWhile is_white_space s"
  let ?r = "rev (takeWhile is_white_space (rev ?m))"
  have "rev ?m = takeWhile is_white_space (rev ?m) @ dropWhile is_white_space (rev ?m)"
    by simp
  then have "?m = trim s @ ?r"
    unfolding trim_def by (metis rev_append rev_rev_ident)
  then have "s = ?l @ trim s @ ?r"
    by (metis takeWhile_dropWhile_id)
  moreover have "\<forall>c \<in> set ?l. is_white_space c"
    by (meson set_takeWhileD)
  moreover have "\<forall>c \<in> set ?r. is_white_space c"
    by (metis set_rev set_takeWhileD)
  ultimately show ?thesis by blast
qed

lemma trim_ends:
  assumes "trim s \<noteq> []"
  shows "\<not> is_white_space (hd (trim s)) \<and> \<not> is_white_space (last (trim s))"
proof -
  let ?m = "dropWhile is_white_space s"
  let ?d = "dropWhile is_white_space (rev ?m)"
  from assms have d: "?d \<noteq> []" by (simp add: trim_def)
  have m: "?m \<noteq> []"
  proof
    assume "?m = []"
    then have "?d = []" by (simp del: dropWhile_eq_Nil_conv)
    with d show False by contradiction
  qed
  have "last (trim s) = hd ?d"
    using d by (simp add: trim_def last_rev)
  moreover have "\<not> is_white_space (hd ?d)"
    using d by (rule hd_dropWhile)
  moreover have "hd (trim s) = last ?d"
    using d by (simp add: trim_def hd_rev)
  moreover have "last ?d = last (rev ?m)"
  proof -
    have "rev ?m = takeWhile is_white_space (rev ?m) @ ?d" by simp
    then show ?thesis using d by (metis last_appendR)
  qed
  moreover have "last (rev ?m) = hd ?m"
    using m by (simp add: last_rev)
  moreover have "\<not> is_white_space (hd ?m)"
    using m by (rule hd_dropWhile)
  ultimately show ?thesis by simp
qed

lemma applicationSchema_company_empty:
  "trim company = [] \<Longrightarrow>
   applicationSchema company position notes =
     Zod_issue ''company'' ''Company name is required'' #
       (z_min ''position'' 1 ''Position is required'' (trim position) @
        z_max ''position'' 100 ''String must contain at most 100 character(s)'' (trim position)) @
       z_max ''notes'' 1000 ''String must contain at most 1000 character(s)'' notes"
  by (simp add: applicationSchema_def z_min_def z_max_def)

lemma applicationSchema_company_long:
  "100 < length (trim company) \<Longrightarrow>
   applicationSchema company position notes =
     Zod_issue ''company'' ''String must contain at most 100 character(s)'' #
       (z_min ''position'' 1 ''Position is required'' (trim position) @
        z_max ''position'' 100 ''String must contain at most 100 character(s)'' (trim position)) @
       z_max ''notes'' 1000 ''String must contain at most 1000 character(s)'' notes"
  by (auto simp add: applicationSchema_def z_min_def z_max_def)

lemma applicationSchema_position_empty:
  "trim company \<noteq> [] \<Longrightarrow> length (trim company) \<le> 100 \<Longrightarrow> trim position = [] \<Longrightarrow>
   applicationSchema company position notes =
     Zod_issue ''position'' ''Position is required'' #
       z_max ''notes'' 1000 ''String must contain at most 1000 character(s)'' notes"
  by (simp add: applicationSchema_def z_min_def z_max_def)

lemma applicationSchema_Nil_iff:
  "applicationSchema company position notes = [] \<longleftrightarrow>
     trim company \<noteq> [] \<and> length (trim company) \<le> 100 \<and>
     trim position \<noteq> [] \<and> length (trim position) \<le> 100 \<and>
     length notes \<le> 1000"
  by (auto simp add: applicationSchema_def z_min_def z_max_def)

section \<open>Creating an application\<close>

text \<open>
  C3.  A submission whose company or position is empty (or consists of white space only,
  which is empty once trimmed) is rejected by the schema: the toast shows the message of
  the first issue, the issue belongs to the first field of the schema that violates a
  constraint, and the database is returned as it was.
\<close>

theorem create_application_empty_field_rejected:
  assumes "trim company = [] \<or> trim position = []"
  shows "\<exists>issue rest.
           applicationSchema company position notes = issue # rest \<and>
           Applications_handleSubmit user company position status notes new_id now db =
             (db, Toast_error (issue_message issue)) \<and>
           issue_path issue =
             (if trim company = [] \<or> 100 < length (trim company) then ''company''
              else ''position'') \<and>
           issue_message issue =
             (if trim company = [] then ''Company name is required''
              else if 100 < length (trim company)
                then ''String must contain at most 100 character(s)''
              else ''Position is required'')"
proof (cases "trim company = []")
  case True
  then show ?thesis
    by (simp add: Applications_handleSubmit_def applicationSchema_company_empty)
next
  case False
  with assms have p: "trim position = []" by simp
  show ?thesis
  proof (cases "100 < length (trim company)")
    case True
    with False show ?thesis
      by (simp add: Applications_handleSubmit_def applicationSchema_company_long)
  next
    case False
    with \<open>trim company \<noteq> []\<close> p show ?thesis
      by (simp add: Applications_handleSubmit_def applicationSchema_position_empty)
  qed
qed

theorem create_application_empty_field_rejected_witness:
  "(trim [] = [] \<or> trim (js ''Engineer'') = []) \<and>
   Applications_handleSubmit (Some 1) [] (js ''Engineer'') ''applied'' [] 40 6 scenario_db =
     (scenario_db, Toast_error ''Company name is required'')"
  using create_application_empty_field_rejected
    [of "[]" "js ''Engineer''" "[]" "Some 1" "''applied''" 40 6 scenario_db]
  by (auto simp add: trim_def)

lemma stripped_trim: "stripped s (trim s)"
  unfolding stripped_def using trim_decompose [of s] trim_ends [of s] by blast

lemma or_null_trim:
  "or_null (trim s) = (if (\<forall>c \<in> set s. is_white_space c) then None else Some (trim s))"
  by (simp add: or_null_def trim_Nil_iff)

lemma handleSubmit_invalid:
  "applicationSchema company position notes = issue # rest \<Longrightarrow>
   Applications_handleSubmit user company position status notes new_id now db =
     (db, Toast_error (issue_message issue))"
  by (simp add: Applications_handleSubmit_def)

lemma handleUpdate_invalid:
  "applicationSchema company position notes = issue # rest \<Longrightarrow>
   ApplicationDetail_handleUpdate user rid company position status notes now db =
     (db, Toast_error (issue_message issue))"
  by (simp add: ApplicationDetail_handleUpdate_def)

lemma handleSubmit_created:
  assumes "applicationSchema company position notes = []"
    and "valid_status status"
    and "u \<in> set (map profile_id (profiles db))"
    and "new_id \<notin> set (map app_id (applications db))"
  shows "Applications_handleSubmit (Some u) company position status notes new_id now db =
     (db\<lparr>applications := applications db @
          [\<lparr>app_id = new_id, app_user_id = u, app_company = trim company,
            app_position = trim position, app_status = status,
            app_notes = or_null (trim notes), app_created_at = now,
            app_updated_at = now\<rparr>]\<rparr>,
      Toast_success ''Application created successfully'')"
  using assms by (simp add: Applications_handleSubmit_def insert_application_def rls_own_def)

lemma handleSubmit_success:
  assumes "Applications_handleSubmit user company position status notes new_id now db =
             (db', Toast_success m)"
  shows "\<exists>u. user = Some u \<and> valid_status status \<and>
           applicationSchema company position notes = [] \<and>
           db' = db\<lparr>applications := applications db @
             [\<lparr>app_id = new_id, app_user_id = u, app_company = trim company,
               app_position = trim position, app_status = status,
               app_notes = or_null (trim notes), app_created_at = now,
               app_updated_at = now\<rparr>]\<rparr>"
  using assms
  by (auto simp add: Applications_handleSubmit_def insert_application_def rls_own_def
      split: list.splits option.splits if_splits sum.splits)

lemma handleSubmit_failure:
  "Applications_handleSubmit user company position status notes new_id now db =
     (db', Toast_error m) \<Longrightarrow> db' = db"
  by (auto simp add: Applications_handleSubmit_def split: list.splits sum.splits)

lemma update_applications_Inr:
  "update_applications user rid upd now db = Inr db' \<Longrightarrow>
   db' = db\<lparr>applications :=
           map (\<lambda>a. if applications_hit user rid a
                     then update_updated_at_application now (upd a) else a)
             (applications db)\<rparr>"
  by (auto simp add: update_applications_def Let_def split: if_splits)

lemma handleUpdate_success:
  assumes "ApplicationDetail_handleUpdate user rid company position status notes now db =
             (db', Toast_success m)"
  shows "applicationSchema company position notes = [] \<and>
         db' = db\<lparr>applications :=
           map (\<lambda>a. if applications_hit user rid a
                     then a\<lparr>app_company := trim company, app_position := trim position,
                            app_status := status, app_notes := or_null (trim notes),
                            app_updated_at := now\<rparr>
                     else a)
             (applications db)\<rparr>"
  using assms
  by (auto simp add: ApplicationDetail_handleUpdate_def update_updated_at_application_def
      dest!: update_applications_Inr split: list.splits sum.splits)

lemma handleUpdate_failure:
  "ApplicationDetail_handleUpdate user rid company position status notes now db =
     (db', Toast_error m) \<Longrightarrow> db' = db"
  by (auto simp add: ApplicationDetail_handleUpdate_def split: list.splits sum.splits)

lemma list_all2_map_self:
  "(\<And>a. a \<in> set xs \<Longrightarrow> R a (f a)) \<Longrightarrow> list_all2 R xs (map f xs)"
  by (induction xs) auto

lemma map_if_none:
  "\<not> list_ex P xs \<Longrightarrow> map (\<lambda>a. if P a then f a else a) xs = xs"
  by (induction xs) auto

lemma filter_app_id_fresh:
  "new_id \<notin> set (map app_id xs) \<Longrightarrow> filter (\<lambda>a. app_id a = new_id) (filter P xs) = []"
  by (induction xs) auto

section \<open>Creating, then fetching\<close>

text \<open>
  C5 (amended).  For a form that passes the schema, a status of the enum, a caller with a
  profile and a fresh id, \<open>handleSubmit\<close> succeeds and \<open>fetchApplication\<close> with the
  new id returns the row: its owner is the caller, its status is the one of the form
  (\<open>applied\<close> for a form whose status was never changed), its company and position are
  those of the form without leading and trailing white space, and its notes are null when
  the form's notes are empty or white space only, the form's notes without leading and
  trailing white space otherwise.
\<close>

theorem create_then_get_application:
  assumes "applicationSchema company position notes = []"
    and "valid_status status"
    and "u \<in> set (map profile_id (profiles db))"
    and "new_id \<notin> set (map app_id (applications db))"
  shows "\<exists>db' row.
     Applications_handleSubmit (Some u) company position status notes new_id now db =
       (db', Toast_success ''Application created successfully'') \<and>
     fetchApplication (Some u) new_id db' = Inr row \<and>
     app_id row = new_id \<and> app_user_id row = u \<and>
     stripped company (app_company row) \<and> stripped position (app_position row) \<and>
     app_status row = status \<and> (status = initial_status \<longrightarrow> app_status row = ''applied'') \<and>
     (case app_notes row of
        None \<Rightarrow> \<forall>c \<in> set notes. is_white_space c
      | Some t \<Rightarrow> t \<noteq> [] \<and> stripped notes t)"
proof -
  let ?row = "\<lparr>app_id = new_id, app_user_id = u, app_company = trim company,
            app_position = trim position, app_status = status,
            app_notes = or_null (trim notes), app_created_at = now,
            app_updated_at = now\<rparr>"
  let ?db' = "db\<lparr>applications := applications db @ [?row]\<rparr>"
  have "Applications_handleSubmit (Some u) company position status notes new_id now db =
       (?db', Toast_success ''Application created successfully'')"
    using assms by (rule handleSubmit_created)
  moreover have "fetchApplication (Some u) new_id ?db' = Inr ?row"
  proof -
    have "select_applications (Some u) ?db' = select_applications (Some u) db @ [?row]"
      by (simp add: select_applications_def rls_own_def)
    moreover have "filter (\<lambda>a. app_id a = new_id) (select_applications (Some u) db) = []"
      unfolding select_applications_def using assms(4) by (rule filter_app_id_fresh)
    ultimately show ?thesis
      by (simp add: fetchApplication_def maybeSingle_def)
  qed
  moreover have "case app_notes ?row of
        None \<Rightarrow> \<forall>c \<in> set notes. is_white_space c
      | Some t \<Rightarrow> t \<noteq> [] \<and> stripped notes t"
    by (simp add: or_null_trim stripped_trim) (simp add: trim_Nil_iff)
  ultimately show ?thesis
    by (intro exI [of _ ?db'] exI [of _ ?row]) (simp add: stripped_trim initial_status_def)
qed

theorem create_then_get_application_witness:
  "applicationSchema (js '' Acme'') (js ''Engineer'') [] = [] \<and>
   valid_status initial_status \<and>
   1 \<in> set (map profile_id (profiles scenario_db)) \<and>
   40 \<notin> set (map app_id (applications scenario_db)) \<and>
   fetchApplication (Some 1) 40
     (fst (Applications_handleSubmit (Some 1) (js '' Acme'') (js ''Engineer'') initial_status
        [] 40 6 scenario_db)) =
     Inr \<lparr>app_id = 40, app_user_id = 1, app_company = js ''Acme'',
          app_position = js ''Engineer'', app_status = ''applied'', app_notes = None,
          app_created_at = 6, app_updated_at = 6\<rparr>"
  using create_then_get_application
    [of "js '' Acme''" "js ''Engineer''" "[]" initial_status 1 scenario_db 40 6]
  by (simp add: js_def is_white_space_def trim_def Applications_handleSubmit_def
      applicationSchema_def z_min_def z_max_def insert_application_def rls_own_def
      valid_status_def scenario_db_def or_null_def initial_status_def fetchApplication_def
      select_applications_def maybeSingle_def)

text \<open>
  The claim as stated, equality with the input in every field, fails for a company with a
  leading space and for empty notes: the form passes the schema, and the row that comes
  back has the company without the space and null notes.
\<close>

theorem create_then_get_verbatim_counterexample:
  "applicationSchema (js '' Acme'') (js ''Engineer'') [] = [] \<and>
   fetchApplication (Some 1) 40
     (fst (Applications_handleSubmit (Some 1) (js '' Acme'') (js ''Engineer'') ''applied''
        [] 40 6 scenario_db)) =
     Inr \<lparr>app_id = 40, app_user_id = 1, app_company = js ''Acme'',
          app_position = js ''Engineer'', app_status = ''applied'', app_notes = None,
          app_created_at = 6, app_updated_at = 6\<rparr> \<and>
   js ''Acme'' \<noteq> js '' Acme'' \<and> None \<noteq> Some ([] :: js_string)"
  by (simp add: js_def is_white_space_def trim_def Applications_handleSubmit_def
      applicationSchema_def z_min_def z_max_def insert_application_def rls_own_def
      valid_status_def scenario_db_def or_null_def fetchApplication_def
      select_applications_def maybeSingle_def)

lemma update_applications_own_rows:
  "list_ex (\<lambda>a. \<not> rls_own user
       (app_user_id (update_updated_at_application now
          (a\<lparr>app_company := c, app_position := p, app_status := st, app_notes := n\<rparr>))))
     (filter (applications_hit user rid) xs) = False"
  by (induction xs) (auto simp add: applications_hit_def update_updated_at_application_def)

lemma update_applications_status_check:
  "list_ex (\<lambda>a. \<not> valid_status
       (app_status (update_updated_at_application now
          (a\<lparr>app_company := c, app_position := p, app_status := st, app_notes := n\<rparr>))))
     (filter (applications_hit user rid) xs) =
   (\<not> valid_status st \<and> list_ex (applications_hit user rid) xs)"
  by (induction xs) (auto simp add: update_updated_at_application_def)

lemma applications_hit_list_ex:
  "list_ex (applications_hit user rid) xs =
   list_ex (\<lambda>a. app_id a = rid \<and> user = Some (app_user_id a)) xs"
  by (induction xs) (auto simp add: applications_hit_def rls_own_def)

section \<open>The status\<close>

text \<open>
  C4 (amended).  The schema does not look at the status.  With a status outside the enum
  and a form that passes the schema, creation fails at the storage constraint
  \<open>valid_status\<close> with the message of a failed insert; an update fails with the message
  of a failed update when the id names a row of the caller, and hits nothing and reports
  success otherwise.  In every case the database is unchanged.
\<close>

theorem status_outside_enum_rejected_by_storage:
  assumes "\<not> valid_status status"
    and "applicationSchema company position notes = []"
  shows "Applications_handleSubmit user company position status notes new_id now db =
           (db, Toast_error ''Failed to create application'') \<and>
         ApplicationDetail_handleUpdate user rid company position status notes now db =
           (db, if list_ex (\<lambda>a. app_id a = rid \<and> user = Some (app_user_id a)) (applications db)
                then Toast_error ''Failed to update application''
                else Toast_success ''Application updated successfully'')"
proof
  show "Applications_handleSubmit user company position status notes new_id now db =
           (db, Toast_error ''Failed to create application'')"
    using assms
    by (simp add: Applications_handleSubmit_def insert_application_def split: option.splits)
next
  show "ApplicationDetail_handleUpdate user rid company position status notes now db =
           (db, if list_ex (\<lambda>a. app_id a = rid \<and> user = Some (app_user_id a)) (applications db)
                then Toast_error ''Failed to update application''
                else Toast_success ''Application updated successfully'')"
  proof (cases "list_ex (applications_hit user rid) (applications db)")
    case True
    then show ?thesis
      using assms
      by (simp add: ApplicationDetail_handleUpdate_def update_applications_def Let_def
          update_applications_own_rows update_applications_status_check
          flip: applications_hit_list_ex)
  next
    case False
    then show ?thesis
      using assms
      by (simp add: ApplicationDetail_handleUpdate_def update_applications_def Let_def
          update_applications_own_rows update_applications_status_check map_if_none
          flip: applications_hit_list_ex)
  qed
qed

theorem status_outside_enum_rejected_by_storage_witness:
  "\<not> valid_status ''nonexistent'' \<and>
   applicationSchema (js ''Acme'') (js ''Engineer'') [] = [] \<and>
   Applications_handleSubmit (Some 1) (js ''Acme'') (js ''Engineer'') ''nonexistent'' [] 40 6
     scenario_db = (scenario_db, Toast_error ''Failed to create application'') \<and>
   ApplicationDetail_handleUpdate (Some 1) 10 (js ''Acme'') (js ''Engineer'') ''nonexistent''
     [] 6 scenario_db = (scenario_db, Toast_error ''Failed to update application'') \<and>
   ApplicationDetail_handleUpdate (Some 1) 20 (js ''Acme'') (js ''Engineer'') ''nonexistent''
     [] 6 scenario_db = (scenario_db, Toast_success ''Application updated successfully'')"
  using status_outside_enum_rejected_by_storage
    [of "''nonexistent''" "js ''Acme''" "js ''Engineer''" "[]" "Some 1" 40 6 scenario_db 10]
    status_outside_enum_rejected_by_storage
    [of "''nonexistent''" "js ''Acme''" "js ''Engineer''" "[]" "Some 1" 40 6 scenario_db 20]
  by (simp add: js_def is_white_space_def trim_def applicationSchema_def z_min_def z_max_def
      valid_status_def scenario_db_def)

text \<open>
  The scenario of the specification: the form passes the schema, so no validation
  message is shown; the update is refused by the storage layer and the page shows the
  message of a failed update.
\<close>

theorem update_status_outside_enum_counterexample:
  "applicationSchema (js ''Acme'') (js ''Engineer'') [] = [] \<and>
   ApplicationDetail_handleUpdate (Some 1) 10 (js ''Acme'') (js ''Engineer'') ''nonexistent''
     [] 7 scenario_db = (scenario_db, Toast_error ''Failed to update application'')"
  by (simp add: js_def is_white_space_def trim_def applicationSchema_def z_min_def z_max_def
      valid_status_def scenario_db_def ApplicationDetail_handleUpdate_def
      update_applications_def applications_hit_def rls_own_def
      update_updated_at_application_def)

section \<open>What an update leaves alone\<close>

text \<open>
  C9.  \<open>handleUpdate\<close> leaves profiles and tasks alone and keeps the applications in
  place, each with its id, owner and creation time.  When it succeeds, the rows with the
  id of the route that belong to the caller have \<open>updated_at\<close> equal to the time of the
  statement and every other row is unchanged; when it fails, every row is unchanged.
\<close>

theorem update_application_keeps_id_and_owner:
  assumes "ApplicationDetail_handleUpdate user rid company position status notes now db =
             (db', t)"
  shows "profiles db' = profiles db \<and> tasks db' = tasks db \<and>
         list_all2
           (\<lambda>a a'. app_id a' = app_id a \<and> app_user_id a' = app_user_id a \<and>
                    app_created_at a' = app_created_at a \<and>
                    (if (\<exists>m. t = Toast_success m) \<and> app_id a = rid \<and>
                        user = Some (app_user_id a)
                     then app_updated_at a' = now else a' = a))
           (applications db) (applications db')"
proof (cases t)
  case (Toast_error m)
  with assms have "db' = db" by (simp add: handleUpdate_failure)
  with Toast_error show ?thesis by (simp add: list_all2_same)
next
  case (Toast_success m)
  with assms have "db' = db\<lparr>applications :=
           map (\<lambda>a. if applications_hit user rid a
                     then a\<lparr>app_company := trim company, app_position := trim position,
                            app_status := status, app_notes := or_null (trim notes),
                            app_updated_at := now\<rparr>
                     else a)
             (applications db)\<rparr>"
    using handleUpdate_success by blast
  with Toast_success show ?thesis
    by (auto simp add: applications_hit_def rls_own_def intro!: list_all2_map_self)
qed

theorem update_application_keeps_id_and_owner_witness:
  "ApplicationDetail_handleUpdate (Some 1) 10 (js ''Acme Corp'') (js ''Engineer'') ''offer''
     (js ''signed'') 50 scenario_db =
     (scenario_db\<lparr>applications :=
        [\<lparr>app_id = 10, app_user_id = 1, app_company = js ''Acme Corp'',
          app_position = js ''Engineer'', app_status = ''offer'',
          app_notes = Some (js ''signed''), app_created_at = 1, app_updated_at = 50\<rparr>,
         \<lparr>app_id = 20, app_user_id = 2, app_company = js ''Globex'',
          app_position = js ''Analyst'', app_status = ''interview'',
          app_notes = Some (js ''referral''), app_created_at = 2, app_updated_at = 2\<rparr>]\<rparr>,
      Toast_success ''Application updated successfully'') \<and>
   map app_id (applications (fst (ApplicationDetail_handleUpdate (Some 1) 10 (js ''Acme Corp'')
     (js ''Engineer'') ''offer'' (js ''signed'') 50 scenario_db))) = [10, 20] \<and>
   map app_user_id (applications (fst (ApplicationDetail_handleUpdate (Some 1) 10
     (js ''Acme Corp'') (js ''Engineer'') ''offer'' (js ''signed'') 50 scenario_db))) = [1, 2]"
  using update_application_keeps_id_and_owner
    [of "Some 1" 10 "js ''Acme Corp''" "js ''Engineer''" "''offer''" "js ''signed''" 50
       scenario_db
       "fst (ApplicationDetail_handleUpdate (Some 1) 10 (js ''Acme Corp'') (js ''Engineer'')
          ''offer'' (js ''signed'') 50 scenario_db)"
       "Toast_success ''Application updated successfully''"]
  by (simp add: js_def is_white_space_def trim_def applicationSchema_def z_min_def z_max_def
      valid_status_def scenario_db_def ApplicationDetail_handleUpdate_def
      update_applications_def applications_hit_def rls_own_def or_null_def
      update_updated_at_application_def)

lemma applications_hit_filter_distinct:
  assumes "distinct (map app_id xs)" and "a \<in> set xs" and "applications_hit user rid a"
  shows "filter (\<lambda>x. \<not> applications_hit user rid x) xs = filter (\<lambda>x. app_id x \<noteq> rid) xs"
proof (rule filter_cong [OF refl])
  fix x assume "x \<in> set xs"
  show "(\<not> applications_hit user rid x) = (app_id x \<noteq> rid)"
  proof (cases "app_id x = rid")
    case True
    with assms \<open>x \<in> set xs\<close> have "x = a"
      by (metis applications_hit_def distinct_map inj_onD)
    with assms(3) True show ?thesis by simp
  next
    case False
    then show ?thesis by (simp add: applications_hit_def)
  qed
qed

lemma gone_ids:
  "list_ex (applications_hit user rid) xs \<Longrightarrow>
   set (map app_id (filter (applications_hit user rid) xs)) = {rid}"
  by (induction xs) (auto simp add: applications_hit_def)

lemma gone_none:
  "\<not> list_ex (applications_hit user rid) xs \<Longrightarrow> filter (applications_hit user rid) xs = []"
  by (induction xs) auto

lemma filter_all: "\<not> list_ex P xs \<Longrightarrow> filter (\<lambda>x. \<not> P x) xs = xs"
  by (induction xs) auto

lemma handleDelete_eq:
  "ApplicationDetail_handleDelete user rid db =
     (if list_ex (applications_hit user rid) (applications db)
      then db\<lparr>applications :=
                filter (\<lambda>a. \<not> applications_hit user rid a) (applications db),
              tasks := filter (\<lambda>t. task_application_id t \<noteq> rid) (tasks db)\<rparr>
      else db,
      Toast_success ''Application deleted successfully'')"
  by (simp add: ApplicationDetail_handleDelete_def delete_applications_def Let_def gone_ids
      gone_none filter_all del: set_map)

section \<open>Deleting an application\<close>

text \<open>
  C2.  \<open>handleDelete\<close> is one statement with one resulting database.  When the id of
  the route names an application of the caller, the result has neither that application
  nor any task that points to it (of the tasks of the database, exactly those with
  another \<open>application_id\<close> remain), and nothing else has changed; when it names no
  application of the caller, the result is the database as it was.
\<close>

theorem delete_application_cascades:
  assumes "ApplicationDetail_handleDelete user rid db = (db', t)"
  shows "profiles db' = profiles db \<and>
         (if list_ex (\<lambda>a. app_id a = rid \<and> user = Some (app_user_id a)) (applications db)
          then tasks db' = filter (\<lambda>t. task_application_id t \<noteq> rid) (tasks db) \<and>
               rid \<notin> set (map task_application_id (tasks db')) \<and>
               length (tasks db') +
                 length (filter (\<lambda>t. task_application_id t = rid) (tasks db)) =
                 length (tasks db) \<and>
               applications db' =
                 filter (\<lambda>a. \<not> (app_id a = rid \<and> user = Some (app_user_id a)))
                   (applications db) \<and>
               (distinct (map app_id (applications db)) \<longrightarrow>
                  applications db' = filter (\<lambda>a. app_id a \<noteq> rid) (applications db) \<and>
                  rid \<notin> set (map app_id (applications db')))
          else db' = db)"
proof (cases "list_ex (applications_hit user rid) (applications db)")
  case True
  with assms have db': "db' = db\<lparr>applications :=
                filter (\<lambda>a. \<not> applications_hit user rid a) (applications db),
              tasks := filter (\<lambda>t. task_application_id t \<noteq> rid) (tasks db)\<rparr>"
    by (simp add: handleDelete_eq)
  from True obtain a where a: "a \<in> set (applications db)" "applications_hit user rid a"
    by (auto simp add: list_ex_iff)
  have len: "length (filter (\<lambda>t. task_application_id t \<noteq> rid) (tasks db)) +
          length (filter (\<lambda>t. task_application_id t = rid) (tasks db)) = length (tasks db)"
    using sum_length_filter_compl [of "\<lambda>t. task_application_id t = rid" "tasks db"]
    by simp
  have d: "distinct (map app_id (applications db)) \<Longrightarrow>
      filter (\<lambda>a. \<not> applications_hit user rid a) (applications db) =
      filter (\<lambda>a. app_id a \<noteq> rid) (applications db)"
    using a by (simp add: applications_hit_filter_distinct)
  have h: "applications_hit user rid = (\<lambda>a. app_id a = rid \<and> user = Some (app_user_id a))"
    by (auto simp add: applications_hit_def rls_own_def fun_eq_iff)
  show ?thesis
    using True len d unfolding db' h by auto
next
  case False
  with assms have "db' = db" by (simp add: handleDelete_eq)
  moreover have "\<not> list_ex (\<lambda>a. app_id a = rid \<and> user = Some (app_user_id a)) (applications db)"
    using False by (simp add: applications_hit_list_ex)
  ultimately show ?thesis by simp
qed

theorem delete_application_cascades_witness:
  "ApplicationDetail_handleDelete (Some 1) 10 scenario_db =
     (scenario_db\<lparr>applications := [applications scenario_db ! 1],
                  tasks := [tasks scenario_db ! 3]\<rparr>,
      Toast_success ''Application deleted successfully'') \<and>
   10 \<notin> set (map task_application_id
     (tasks (fst (ApplicationDetail_handleDelete (Some 1) 10 scenario_db))))"
  using delete_application_cascades
    [of "Some 1" 10 scenario_db "fst (ApplicationDetail_handleDelete (Some 1) 10 scenario_db)"
       "Toast_success ''Application deleted successfully''"]
  by (simp add: scenario_db_def ApplicationDetail_handleDelete_def delete_applications_def
      applications_hit_def rls_own_def)

lemma mset_insert_by: "mset (insert_by le x xs) = add_mset x (mset xs)"
  by (induction xs) auto

lemma mset_order_by: "mset (order_by le xs) = mset xs"
  unfolding order_by_def by (induction xs) (auto simp add: mset_insert_by)

lemma set_order_by: "set (order_by le xs) = set xs"
  using mset_order_by [of le xs] by (metis set_mset_mset)

lemma set_insert_by: "set (insert_by le x xs) = insert x (set xs)"
  using mset_insert_by [of le x xs] by (metis set_mset_mset set_mset_add_mset_insert)

lemma sorted_wrt_insert_by:
  assumes total: "\<And>a b. le a b \<or> le b a"
    and trans: "\<And>a b c. le a b \<Longrightarrow> le b c \<Longrightarrow> le a c"
  shows "sorted_wrt le xs \<Longrightarrow> sorted_wrt le (insert_by le x xs)"
proof (induction xs)
  case Nil
  then show ?case by simp
next
  case (Cons y ys)
  show ?case
  proof (cases "le x y")
    case True
    with Cons.prems trans show ?thesis by auto
  next
    case False
    with total have "le y x" by blast
    with Cons False show ?thesis by (auto simp add: set_insert_by)
  qed
qed

lemma sorted_wrt_order_by:
  assumes "\<And>a b. le a b \<or> le b a"
    and "\<And>a b c. le a b \<Longrightarrow> le b c \<Longrightarrow> le a c"
  shows "sorted_wrt le (order_by le xs)"
  unfolding order_by_def
  by (induction xs) (auto intro: sorted_wrt_insert_by [OF assms])

lemma mset_map_order_by: "mset (map f (order_by le ys)) = mset (map f ys)"
  by (metis mset_map mset_order_by)

lemma fetchTasks_tasks: "mset (map fst (fetchTasks user db)) = mset (select_tasks user db)"
  unfolding fetchTasks_def mset_map_order_by by (simp add: comp_def)

lemma tasks_order_total: "tasks_order a b \<or> tasks_order b a"
  by (auto simp add: tasks_order_def split: option.splits)

lemma tasks_order_trans: "tasks_order a b \<Longrightarrow> tasks_order b c \<Longrightarrow> tasks_order a c"
  by (auto simp add: tasks_order_def split: option.splits)

lemma tasks_order_meaning:
  "tasks_order a b \<Longrightarrow>
   (case (task_due_date a, task_due_date b) of
      (Some x, Some y) \<Rightarrow> x \<le> y
    | (Some x, None) \<Rightarrow> True
    | (None, Some y) \<Rightarrow> False
    | (None, None) \<Rightarrow> True) \<and>
   (task_due_date a = task_due_date b \<longrightarrow> task_created_at b \<le> task_created_at a)"
  by (auto simp add: tasks_order_def split: option.splits)

lemma find_unique:
  assumes "a \<in> set xs" and "P a" and "\<forall>x \<in> set xs. P x \<longrightarrow> x = a"
  shows "find P xs = Some a"
  using assms(1,3)
proof (induction xs)
  case Nil
  then show ?case by simp
next
  case (Cons x xs)
  show ?case
  proof (cases "P x")
    case True
    with Cons.prems(2) have "x = a" by simp
    with True show ?thesis by simp
  next
    case False
    with assms(2) have "a \<noteq> x" by blast
    with Cons.prems(1) have "a \<in> set xs" by simp
    moreover from Cons.prems(2) have "\<forall>x \<in> set xs. P x \<longrightarrow> x = a" by simp
    ultimately have "find P xs = Some a" by (rule Cons.IH)
    with False show ?thesis by simp
  qed
qed

lemma find_distinct:
  assumes "distinct (map f xs)" and "a \<in> set xs" and "P a"
    and "\<And>x. x \<in> set xs \<Longrightarrow> P x \<Longrightarrow> f x = f a"
  shows "find P xs = Some a"
proof -
  from assms(1) have "inj_on f (set xs)" by (simp add: distinct_map)
  with assms(2,4) have "\<forall>x \<in> set xs. P x \<longrightarrow> x = a"
    by (meson inj_onD)
  with assms(2,3) show ?thesis by (rule find_unique [of a xs P])
qed

lemma find_filter: "find P (filter Q xs) = find (\<lambda>x. Q x \<and> P x) xs"
  by (induction xs) auto

lemma embed_application_eq:
  "embed_application user db t =
     map_option (\<lambda>a. (app_company a, app_position a))
       (find (\<lambda>a. user = Some (app_user_id a) \<and> app_id a = task_application_id t)
          (applications db))"
  by (simp add: embed_application_def select_applications_def find_filter rls_own_def)

lemma fetchTasks_rows:
  "set (fetchTasks user db) =
     (\<lambda>t. (t, embed_application user db t)) ` {t \<in> set (tasks db). user = Some (task_user_id t)}"
  by (auto simp add: fetchTasks_def set_order_by select_tasks_def rls_own_def)

lemma fetchTasks_sorted:
  "sorted_wrt (\<lambda>r s. tasks_order (fst r) (fst s)) (fetchTasks user db)"
  unfolding fetchTasks_def
proof (rule sorted_wrt_order_by)
  fix a b :: "task \<times> (js_string \<times> js_string) option"
  show "tasks_order (fst a) (fst b) \<or> tasks_order (fst b) (fst a)"
    by (rule tasks_order_total)
next
  fix a b c :: "task \<times> (js_string \<times> js_string) option"
  assume "tasks_order (fst a) (fst b)" and "tasks_order (fst b) (fst c)"
  then show "tasks_order (fst a) (fst c)" by (rule tasks_order_trans)
qed

lemma fetchTasks_order_meaning:
  "sorted_wrt
     (\<lambda>r s. (case (task_due_date (fst r), task_due_date (fst s)) of
                (Some x, Some y) \<Rightarrow> x \<le> y
              | (Some x, None) \<Rightarrow> True
              | (None, Some y) \<Rightarrow> False
              | (None, None) \<Rightarrow> True) \<and>
             (task_due_date (fst r) = task_due_date (fst s) \<longrightarrow>
                task_created_at (fst s) \<le> task_created_at (fst r)))
     (fetchTasks user db)"
proof (rule sorted_wrt_mono_rel [OF _ fetchTasks_sorted])
  fix r s :: "task \<times> (js_string \<times> js_string) option"
  assume "tasks_order (fst r) (fst s)"
  then show "(case (task_due_date (fst r), task_due_date (fst s)) of
                (Some x, Some y) \<Rightarrow> x \<le> y
              | (Some x, None) \<Rightarrow> True
              | (None, Some y) \<Rightarrow> False
              | (None, None) \<Rightarrow> True) \<and>
             (task_due_date (fst r) = task_due_date (fst s) \<longrightarrow>
                task_created_at (fst s) \<le> task_created_at (fst r))"
    by (rule tasks_order_meaning)
qed

lemma fetchTasks_embedded:
  assumes "(t, e) \<in> set (fetchTasks user db)"
  shows "e = map_option (\<lambda>a. (app_company a, app_position a))
            (find (\<lambda>a. user = Some (app_user_id a) \<and> app_id a = task_application_id t)
               (applications db))"
  using assms unfolding fetchTasks_rows embed_application_eq by blast

lemma fetchTasks_parent:
  assumes "distinct (map app_id (applications db))"
    and "(t, e) \<in> set (fetchTasks user db)"
    and "a \<in> set (applications db)"
    and "app_id a = task_application_id t" and "user = Some (app_user_id a)"
  shows "e = Some (app_company a, app_position a)"
proof -
  have "find (\<lambda>a. user = Some (app_user_id a) \<and> app_id a = task_application_id t)
            (applications db) = Some a"
    using assms(1,3) by (rule find_distinct) (simp_all add: assms(4,5))
  with fetchTasks_embedded [OF assms(2)] show ?thesis by simp
qed

lemma fetchTasks_orphan:
  assumes "(t, e) \<in> set (fetchTasks user db)"
    and "\<not> list_ex (\<lambda>a. app_id a = task_application_id t \<and> user = Some (app_user_id a))
          (applications db)"
  shows "e = None"
proof -
  from assms(2)
  have "find (\<lambda>a. user = Some (app_user_id a) \<and> app_id a = task_application_id t)
          (applications db) = None"
    by (auto simp add: find_None_iff list_ex_iff)
  with fetchTasks_embedded [OF assms(1)] show ?thesis by simp
qed

section \<open>The list of tasks\<close>

text \<open>
  C6 (amended).  \<open>fetchTasks\<close> returns the tasks of the caller, each once: in the
  order of the result an earlier row never has a later due date than a later row, a row
  without a due date never comes before a row with one, and of two rows with the same due
  date (or both without) the earlier was not created before the later.  Each row carries
  what the select policy of applications shows the caller of its parent: the parent's
  company and position when the parent belongs to the caller (application ids being
  unique), and null when no application of the caller has the parent's id.
\<close>

theorem fetchTasks_sorted_and_joined:
  "sorted_wrt
     (\<lambda>r s. (case (task_due_date (fst r), task_due_date (fst s)) of
                (Some x, Some y) \<Rightarrow> x \<le> y
              | (Some x, None) \<Rightarrow> True
              | (None, Some y) \<Rightarrow> False
              | (None, None) \<Rightarrow> True) \<and>
             (task_due_date (fst r) = task_due_date (fst s) \<longrightarrow>
                task_created_at (fst s) \<le> task_created_at (fst r)))
     (fetchTasks user db) \<and>
   mset (map fst (fetchTasks user db)) =
     mset (filter (\<lambda>t. user = Some (task_user_id t)) (tasks db)) \<and>
   (\<forall>(t, e) \<in> set (fetchTasks user db).
      e = map_option (\<lambda>a. (app_company a, app_position a))
            (find (\<lambda>a. user = Some (app_user_id a) \<and> app_id a = task_application_id t)
               (applications db))) \<and>
   (distinct (map app_id (applications db)) \<longrightarrow>
      (\<forall>(t, e) \<in> set (fetchTasks user db). \<forall>a \<in> set (applications db).
         app_id a = task_application_id t \<and> user = Some (app_user_id a) \<longrightarrow>
           e = Some (app_company a, app_position a))) \<and>
   (\<forall>(t, e) \<in> set (fetchTasks user db).
      \<not> list_ex (\<lambda>a. app_id a = task_application_id t \<and> user = Some (app_user_id a))
          (applications db) \<longrightarrow> e = None)"
proof (intro conjI impI)
  show "sorted_wrt
     (\<lambda>r s. (case (task_due_date (fst r), task_due_date (fst s)) of
                (Some x, Some y) \<Rightarrow> x \<le> y
              | (Some x, None) \<Rightarrow> True
              | (None, Some y) \<Rightarrow> False
              | (None, None) \<Rightarrow> True) \<and>
             (task_due_date (fst r) = task_due_date (fst s) \<longrightarrow>
                task_created_at (fst s) \<le> task_created_at (fst r)))
     (fetchTasks user db)"
    by (rule fetchTasks_order_meaning)
next
  show "mset (map fst (fetchTasks user db)) =
     mset (filter (\<lambda>t. user = Some (task_user_id t)) (tasks db))"
    unfolding fetchTasks_tasks by (simp add: select_tasks_def rls_own_def)
next
  show "\<forall>(t, e) \<in> set (fetchTasks user db).
      e = map_option (\<lambda>a. (app_company a, app_position a))
            (find (\<lambda>a. user = Some (app_user_id a) \<and> app_id a = task_application_id t)
               (applications db))"
    using fetchTasks_embedded by blast
next
  assume "distinct (map app_id (applications db))"
  then show "\<forall>(t, e) \<in> set (fetchTasks user db). \<forall>a \<in> set (applications db).
         app_id a = task_application_id t \<and> user = Some (app_user_id a) \<longrightarrow>
           e = Some (app_company a, app_position a)"
    using fetchTasks_parent by blast
next
  show "\<forall>(t, e) \<in> set (fetchTasks user db).
      \<not> list_ex (\<lambda>a. app_id a = task_application_id t \<and> user = Some (app_user_id a))
          (applications db) \<longrightarrow> e = None"
    using fetchTasks_orphan by blast
qed

theorem fetchTasks_sorted_and_joined_witness:
  "distinct (map app_id (applications scenario_db)) \<and>
   map (\<lambda>(t, e). (task_id t, task_due_date t, task_created_at t, e))
     (fetchTasks (Some 1) scenario_db) =
     [(32, Some 5, 5, Some (js ''Acme'', js ''Engineer'')),
      (30, Some 9, 3, Some (js ''Acme'', js ''Engineer'')),
      (31, None, 4, Some (js ''Acme'', js ''Engineer''))] \<and>
   map (\<lambda>(t, e). (task_id t, task_due_date t, task_created_at t, e))
     (fetchTasks (Some 1)
        (fst (Tasks_handleSubmit (Some 1) (js ''Peek'') (Some 20) None [] 41 8 scenario_db))) =
     [(32, Some 5, 5, Some (js ''Acme'', js ''Engineer'')),
      (30, Some 9, 3, Some (js ''Acme'', js ''Engineer'')),
      (41, None, 8, None),
      (31, None, 4, Some (js ''Acme'', js ''Engineer''))]"
  using fetchTasks_sorted_and_joined [of "Some 1" scenario_db]
    fetchTasks_sorted_and_joined [of "Some 1"
      "fst (Tasks_handleSubmit (Some 1) (js ''Peek'') (Some 20) None [] 41 8 scenario_db)"]
  by (simp add: scenario_db_def fetchTasks_def order_by_def select_tasks_def rls_own_def
      embed_application_def select_applications_def tasks_order_def Tasks_handleSubmit_def
      taskSchema_def z_min_def z_max_def insert_task_def or_null_def trim_def
      is_white_space_def js_def)

text \<open>
  The claim fails where a task of the caller hangs under an application of somebody
  else.  The first user creates task 41 under application 20, which belongs to the second
  user; the list of the first user then has task 41 without company and position.
\<close>

theorem fetchTasks_foreign_parent_counterexample:
  "app_id (applications scenario_db ! 1) = 20 \<and>
   app_user_id (applications scenario_db ! 1) = 2 \<and>
   app_company (applications scenario_db ! 1) = js ''Globex'' \<and>
   fetchTasks (Some 1)
     (fst (Tasks_handleSubmit (Some 1) (js ''Peek'') (Some 20) None [] 41 8 scenario_db)) =
     [(tasks scenario_db ! 2, Some (js ''Acme'', js ''Engineer'')),
      (tasks scenario_db ! 0, Some (js ''Acme'', js ''Engineer'')),
      (\<lparr>task_id = 41, task_application_id = 20, task_user_id = 1,
        task_title = js ''Peek'', task_due_date = None, task_completed = False,
        task_notes = None, task_created_at = 8, task_updated_at = 8\<rparr>, None),
      (tasks scenario_db ! 1, Some (js ''Acme'', js ''Engineer''))]"
  by (simp add: scenario_db_def fetchTasks_def order_by_def select_tasks_def rls_own_def
      embed_application_def select_applications_def tasks_order_def Tasks_handleSubmit_def
      taskSchema_def z_min_def z_max_def insert_task_def or_null_def trim_def
      is_white_space_def js_def)















section \<open>Isolation of owners\<close>



lemma tasks_hit_own:
  "list_ex (\<lambda>x. \<not> rls_own user (task_user_id x)) (filter (tasks_hit user rid) xs) = False"
  by (induction xs) (auto simp add: tasks_hit_def)

lemma list_ex_False: "list_ex (\<lambda>x. False) xs = False"
  by (induction xs) auto

lemma toggleComplete_eq:
  "toggleComplete user t now db =
     (db\<lparr>tasks :=
         map (\<lambda>x. if tasks_hit user (task_id t) x
                   then x\<lparr>task_completed := \<not> task_completed t, task_updated_at := now\<rparr>
                   else x)
           (tasks db)\<rparr>,
      None)"
  by (simp add: toggleComplete_def update_tasks_def Let_def tasks_hit_own list_ex_False
      update_updated_at_task_def)

lemma distinct_task_id:
  "distinct (map task_id xs) \<Longrightarrow> x \<in> set xs \<Longrightarrow> y \<in> set xs \<Longrightarrow> task_id x = task_id y
   \<Longrightarrow> x = y"
  by (meson distinct_map inj_onD)

lemma toggleComplete_distinct:
  assumes "distinct (map task_id (tasks db))" and "t0 \<in> set (tasks db)"
    and "user = Some (task_user_id t0)" and "task_id s = task_id t0"
  shows "toggleComplete user s now db =
     (db\<lparr>tasks :=
         map (\<lambda>x. if task_id x = task_id t0
                   then x\<lparr>task_completed := \<not> task_completed s, task_updated_at := now\<rparr>
                   else x)
           (tasks db)\<rparr>,
      None)"
proof -
  have "tasks_hit user (task_id s) x \<longleftrightarrow> task_id x = task_id t0"
    if "x \<in> set (tasks db)" for x
    using distinct_task_id [OF assms(1) that assms(2)] assms(3,4)
    by (auto simp add: tasks_hit_def rls_own_def)
  then have "map (\<lambda>x. if tasks_hit user (task_id s) x
                   then x\<lparr>task_completed := \<not> task_completed s, task_updated_at := now\<rparr>
                   else x) (tasks db) =
        map (\<lambda>x. if task_id x = task_id t0
                   then x\<lparr>task_completed := \<not> task_completed s, task_updated_at := now\<rparr>
                   else x) (tasks db)"
    by (intro map_cong [OF refl]) simp
  then show ?thesis by (simp add: toggleComplete_eq)
qed

lemma toggled_twice:
  "map (\<lambda>y. if task_id y = rid
            then y\<lparr>task_completed := c2, task_updated_at := now2\<rparr> else y)
     (map (\<lambda>x. if task_id x = rid
               then x\<lparr>task_completed := c1, task_updated_at := now1\<rparr> else x) xs) =
   map (\<lambda>x. if task_id x = rid
            then x\<lparr>task_completed := c2, task_updated_at := now2\<rparr> else x) xs"
  by (induction xs) auto

lemma toggled_ids:
  "map task_id (map (\<lambda>x. if task_id x = rid
               then x\<lparr>task_completed := c, task_updated_at := now\<rparr> else x) xs) =
   map task_id xs"
  by (induction xs) auto

lemma toggled_back:
  assumes "distinct (map task_id xs)" and "t \<in> set xs"
  shows "map (\<lambda>x. if task_id x = task_id t
            then x\<lparr>task_completed := task_completed t, task_updated_at := now\<rparr> else x) xs =
         map (\<lambda>x. if task_id x = task_id t then x\<lparr>task_updated_at := now\<rparr> else x) xs"
proof (rule map_cong [OF refl])
  fix x assume "x \<in> set xs"
  show "(if task_id x = task_id t
         then x\<lparr>task_completed := task_completed t, task_updated_at := now\<rparr> else x) =
        (if task_id x = task_id t then x\<lparr>task_updated_at := now\<rparr> else x)"
  proof (cases "task_id x = task_id t")
    case True
    with distinct_task_id [OF assms(1) \<open>x \<in> set xs\<close> assms(2)] have "x = t" by simp
    then show ?thesis by simp
  next
    case False
    then show ?thesis by simp
  qed
qed

section \<open>Toggling a task\<close>

text \<open>
  C8 (amended).  \<open>toggleComplete\<close> writes the negation of \<open>completed\<close> of the task
  it is handed.  For a task of the fetched list, task ids being unique: the call succeeds
  and negates \<open>completed\<close> of that task and nothing else but its \<open>updated_at\<close>;
  the list fetched afterwards has exactly one row with the id of the task, the written
  row, and toggling that row succeeds and leaves the tasks as they
  were before the first call, except for \<open>updated_at\<close> of the toggled task; toggling the
  row of the old list a second time instead writes the same value again, so that
  \<open>completed\<close> stays negated.
\<close>

theorem toggleComplete_twice:
  assumes "(t, e) \<in> set (fetchTasks user db)"
    and "distinct (map task_id (tasks db))"
  shows "let t1 = t\<lparr>task_completed := \<not> task_completed t, task_updated_at := now1\<rparr>;
             db1 = db\<lparr>tasks :=
                       map (\<lambda>x. if task_id x = task_id t
                                 then x\<lparr>task_completed := \<not> task_completed t,
                                        task_updated_at := now1\<rparr>
                                 else x)
                         (tasks db)\<rparr>
         in toggleComplete user t now1 db = (db1, None) \<and>
            (t1, e) \<in> set (fetchTasks user db1) \<and>
            (\<forall>t' e'. (t', e') \<in> set (fetchTasks user db1) \<and> task_id t' = task_id t \<longrightarrow>
               t' = t1 \<and> e' = e) \<and>
            toggleComplete user t1 now2 db1 =
              (db\<lparr>tasks :=
                  map (\<lambda>x. if task_id x = task_id t then x\<lparr>task_updated_at := now2\<rparr> else x)
                    (tasks db)\<rparr>,
               None) \<and>
            toggleComplete user t now2 db1 =
              (db\<lparr>tasks :=
                  map (\<lambda>x. if task_id x = task_id t
                            then x\<lparr>task_completed := \<not> task_completed t,
                                   task_updated_at := now2\<rparr>
                            else x)
                    (tasks db)\<rparr>,
               None)"
proof -
  let ?g1 = "\<lambda>x. if task_id x = task_id t
                 then x\<lparr>task_completed := \<not> task_completed t, task_updated_at := now1\<rparr>
                 else x"
  let ?db1 = "db\<lparr>tasks := map ?g1 (tasks db)\<rparr>"
  let ?t1 = "t\<lparr>task_completed := \<not> task_completed t, task_updated_at := now1\<rparr>"
  from assms(1) have t: "t \<in> set (tasks db)" and own: "user = Some (task_user_id t)"
    and e: "e = embed_application user db t"
    unfolding fetchTasks_rows by auto
  have first: "toggleComplete user t now1 db = (?db1, None)"
    using assms(2) t own refl by (rule toggleComplete_distinct)
  have d1: "distinct (map task_id (tasks ?db1))"
    using assms(2) by (simp add: toggled_ids del: map_map)
  have "?g1 t \<in> set (map ?g1 (tasks db))"
    using t by (intro imageI [of t "set (tasks db)" ?g1, folded set_map])
  then have t1: "?t1 \<in> set (tasks ?db1)" by simp
  have own1: "user = Some (task_user_id ?t1)" using own by simp
  have emb: "embed_application user ?db1 x = embed_application user db t"
    if "task_application_id x = task_application_id t" for x
    using that by (simp add: embed_application_eq)
  have refetched: "(?t1, e) \<in> set (fetchTasks user ?db1)"
    unfolding fetchTasks_rows e using t1 own1 emb [of ?t1] by (auto simp add: image_iff)
  have only: "t' = ?t1 \<and> e' = e"
    if "(t', e') \<in> set (fetchTasks user ?db1) \<and> task_id t' = task_id t" for t' e'
  proof -
    from that have m: "t' \<in> set (tasks ?db1)" and e': "e' = embed_application user ?db1 t'"
      and i: "task_id t' = task_id t"
      unfolding fetchTasks_rows by auto
    from distinct_task_id [OF d1 m t1] i have "t' = ?t1" by simp
    with e' e emb [of ?t1] show ?thesis by simp
  qed
  have g2: "(\<lambda>x. if task_id x = task_id ?t1
                    then x\<lparr>task_completed := \<not> task_completed ?t1, task_updated_at := now2\<rparr>
                    else x) =
            (\<lambda>x. if task_id x = task_id t
                    then x\<lparr>task_completed := task_completed t, task_updated_at := now2\<rparr>
                    else x)"
    by (auto simp add: fun_eq_iff)
  have g2': "(\<lambda>x. if task_id x = task_id ?t1
                    then x\<lparr>task_completed := \<not> task_completed t, task_updated_at := now2\<rparr>
                    else x) =
            (\<lambda>x. if task_id x = task_id t
                    then x\<lparr>task_completed := \<not> task_completed t, task_updated_at := now2\<rparr>
                    else x)"
    by (auto simp add: fun_eq_iff)
  have restored: "map (\<lambda>x. if task_id x = task_id t
                    then x\<lparr>task_completed := task_completed t, task_updated_at := now2\<rparr>
                    else x) (map ?g1 (tasks db)) =
        map (\<lambda>x. if task_id x = task_id t then x\<lparr>task_updated_at := now2\<rparr> else x)
          (tasks db)"
    by (simp only: toggled_twice toggled_back [OF assms(2) t])
  have repeated: "map (\<lambda>x. if task_id x = task_id t
                    then x\<lparr>task_completed := \<not> task_completed t, task_updated_at := now2\<rparr>
                    else x) (map ?g1 (tasks db)) =
        map (\<lambda>x. if task_id x = task_id t
                    then x\<lparr>task_completed := \<not> task_completed t, task_updated_at := now2\<rparr>
                    else x)
          (tasks db)"
    by (simp only: toggled_twice)
  have "toggleComplete user ?t1 now2 ?db1 =
      (?db1\<lparr>tasks :=
          map (\<lambda>x. if task_id x = task_id ?t1
                    then x\<lparr>task_completed := \<not> task_completed ?t1, task_updated_at := now2\<rparr>
                    else x)
            (tasks ?db1)\<rparr>,
       None)"
    using d1 t1 own1 refl by (rule toggleComplete_distinct)
  then have second: "toggleComplete user ?t1 now2 ?db1 =
       (db\<lparr>tasks :=
           map (\<lambda>x. if task_id x = task_id t then x\<lparr>task_updated_at := now2\<rparr> else x)
             (tasks db)\<rparr>,
        None)"
    unfolding g2 by (simp add: restored del: map_map)
  have "toggleComplete user t now2 ?db1 =
      (?db1\<lparr>tasks :=
          map (\<lambda>x. if task_id x = task_id ?t1
                    then x\<lparr>task_completed := \<not> task_completed t, task_updated_at := now2\<rparr>
                    else x)
            (tasks ?db1)\<rparr>,
       None)"
    using d1 t1 own1 by (rule toggleComplete_distinct) simp
  then have stale: "toggleComplete user t now2 ?db1 =
       (db\<lparr>tasks :=
           map (\<lambda>x. if task_id x = task_id t
                     then x\<lparr>task_completed := \<not> task_completed t, task_updated_at := now2\<rparr>
                     else x)
             (tasks db)\<rparr>,
        None)"
    unfolding g2' by (simp add: repeated del: map_map)
  show ?thesis
    unfolding Let_def
  proof (intro conjI allI impI)
    show "toggleComplete user t now1 db = (?db1, None)" by (rule first)
    show "(?t1, e) \<in> set (fetchTasks user ?db1)" by (rule refetched)
    show "toggleComplete user ?t1 now2 ?db1 =
       (db\<lparr>tasks :=
           map (\<lambda>x. if task_id x = task_id t then x\<lparr>task_updated_at := now2\<rparr> else x)
             (tasks db)\<rparr>,
        None)" by (rule second)
    show "toggleComplete user t now2 ?db1 =
       (db\<lparr>tasks :=
           map (\<lambda>x. if task_id x = task_id t
                     then x\<lparr>task_completed := \<not> task_completed t, task_updated_at := now2\<rparr>
                     else x)
             (tasks db)\<rparr>,
        None)" by (rule stale)
  next
    fix t' e'
    assume "(t', e') \<in> set (fetchTasks user ?db1) \<and> task_id t' = task_id t"
    then show "t' = ?t1" and "e' = e" using only by blast+
  qed
qed

theorem toggleComplete_twice_witness:
  "distinct (map task_id (tasks scenario_db)) \<and>
   map task_completed (tasks scenario_db) = [False, False, True, False] \<and>
   map task_completed
     (tasks (fst (toggleComplete (Some 1) (tasks scenario_db ! 0) 7 scenario_db))) =
     [True, False, True, False] \<and>
   map task_completed
     (tasks (fst (toggleComplete (Some 1)
        ((tasks scenario_db ! 0)\<lparr>task_completed := True, task_updated_at := 7\<rparr>) 8
        (fst (toggleComplete (Some 1) (tasks scenario_db ! 0) 7 scenario_db))))) =
     [False, False, True, False]"
proof -
  let ?t = "tasks scenario_db ! 0"
  let ?e = "Some (js ''Acme'', js ''Engineer'')"
  have h1: "(?t, ?e) \<in> set (fetchTasks (Some 1) scenario_db)"
    by (simp add: scenario_db_def fetchTasks_def order_by_def select_tasks_def rls_own_def
        embed_application_def select_applications_def tasks_order_def)
  have h2: "distinct (map task_id (tasks scenario_db))"
    by (simp add: scenario_db_def)
  have c: "(\<not> task_completed ?t) = True" and i: "task_id ?t = 30"
    by (simp_all add: scenario_db_def)
  have before: "map task_completed (tasks scenario_db) = [False, False, True, False]"
    by (simp add: scenario_db_def)
  have flipped: "map task_completed
      (map (\<lambda>x. if task_id x = 30
                then x\<lparr>task_completed := True, task_updated_at := 7\<rparr> else x)
         (tasks scenario_db)) = [True, False, True, False]"
    by (simp add: scenario_db_def)
  have restored: "map task_completed
      (map (\<lambda>x. if task_id x = 30 then x\<lparr>task_updated_at := 8\<rparr> else x)
         (tasks scenario_db)) = [False, False, True, False]"
    by (simp add: scenario_db_def)
  note twice = toggleComplete_twice [OF h1 h2, of 7 8, unfolded Let_def c i]
  from twice have first: "toggleComplete (Some 1) ?t 7 scenario_db =
      (scenario_db\<lparr>tasks :=
         map (\<lambda>x. if task_id x = 30
                   then x\<lparr>task_completed := True, task_updated_at := 7\<rparr> else x)
           (tasks scenario_db)\<rparr>, None)"
    by (rule conjunct1)
  from twice have second: "toggleComplete (Some 1)
        (?t\<lparr>task_completed := True, task_updated_at := 7\<rparr>) 8
        (scenario_db\<lparr>tasks :=
           map (\<lambda>x. if task_id x = 30
                     then x\<lparr>task_completed := True, task_updated_at := 7\<rparr> else x)
             (tasks scenario_db)\<rparr>) =
      (scenario_db\<lparr>tasks :=
         map (\<lambda>x. if task_id x = 30 then x\<lparr>task_updated_at := 8\<rparr> else x)
           (tasks scenario_db)\<rparr>, None)"
    by blast
  from h2 before flipped restored first second show ?thesis
    by (simp del: map_map)
qed

text \<open>
  The claim fails when the same row of the list is toggled twice, as with a second click
  before the list has been fetched again: both calls write \<open>True\<close>, and the task that
  was not completed stays completed.
\<close>

theorem toggle_same_snapshot_counterexample:
  "map task_completed (tasks scenario_db) = [False, False, True, False] \<and>
   map task_completed
     (tasks (fst (toggleComplete (Some 1) (tasks scenario_db ! 0) 8
        (fst (toggleComplete (Some 1) (tasks scenario_db ! 0) 7 scenario_db))))) =
     [True, False, True, False]"
  by (simp add: scenario_db_def toggleComplete_def update_tasks_def tasks_hit_def rls_own_def
      update_updated_at_task_def)

lemma list_ex_filter: "list_ex P (filter Q xs) = list_ex (\<lambda>x. Q x \<and> P x) xs"
  by (induction xs) auto

lemma taskSchema_Nil_iff:
  "taskSchema title notes = [] \<longleftrightarrow>
     trim title \<noteq> [] \<and> length (trim title) \<le> 200 \<and> length notes \<le> 1000"
  by (auto simp add: taskSchema_def z_min_def z_max_def)

lemma Tasks_handleSubmit_eq:
  assumes "taskSchema title notes = []"
    and "u \<in> set (map profile_id (profiles db))"
    and "new_id \<notin> set (map task_id (tasks db))"
  shows "Tasks_handleSubmit (Some u) title (Some application_id) dueDate notes new_id now db =
     (if application_id \<in> set (map app_id (applications db))
      then (db\<lparr>tasks := tasks db @
              [\<lparr>task_id = new_id, task_application_id = application_id, task_user_id = u,
                task_title = trim title, task_due_date = dueDate, task_completed = False,
                task_notes = or_null (trim notes), task_created_at = now,
                task_updated_at = now\<rparr>]\<rparr>,
            Toast_success ''Task created successfully'')
      else (db, Toast_error ''Failed to create task''))"
  using assms by (simp add: Tasks_handleSubmit_def insert_task_def rls_own_def)

lemma TaskDetail_handleUpdate_parent_exists:
  assumes "taskSchema title notes = []"
    and "application_id \<in> set (map app_id (applications db))"
  shows "TaskDetail_handleUpdate (Some u) rid title (Some application_id) dueDate completed
           notes now db =
     (db\<lparr>tasks :=
         map (\<lambda>t. if task_id t = rid \<and> task_user_id t = u
                   then t\<lparr>task_title := trim title, task_application_id := application_id,
                          task_due_date := dueDate, task_completed := completed,
                          task_notes := or_null (trim notes), task_updated_at := now\<rparr>
                   else t)
           (tasks db)\<rparr>,
      Toast_success ''Task updated successfully'')"
proof -
  have hit: "tasks_hit (Some u) rid = (\<lambda>t. task_id t = rid \<and> task_user_id t = u)"
    by (auto simp add: tasks_hit_def rls_own_def fun_eq_iff)
  have "update_tasks (Some u) rid
          (\<lambda>t. t\<lparr>task_title := trim title, task_application_id := application_id,
                  task_due_date := dueDate, task_completed := completed,
                  task_notes := or_null (trim notes)\<rparr>) now db =
        Inr (db\<lparr>tasks :=
         map (\<lambda>t. if tasks_hit (Some u) rid t
                   then t\<lparr>task_title := trim title, task_application_id := application_id,
                          task_due_date := dueDate, task_completed := completed,
                          task_notes := or_null (trim notes), task_updated_at := now\<rparr>
                   else t)
           (tasks db)\<rparr>)"
    using assms(2)
    by (simp add: update_tasks_def Let_def update_updated_at_task_def tasks_hit_own
        list_ex_False)
  then show ?thesis
    using assms(1) unfolding hit by (simp add: TaskDetail_handleUpdate_def)
qed

lemma TaskDetail_handleUpdate_parent_missing:
  assumes "taskSchema title notes = []"
    and "application_id \<notin> set (map app_id (applications db))"
    and "list_ex (\<lambda>t. task_id t = rid \<and> task_user_id t = u \<and>
            task_application_id t \<noteq> application_id) (tasks db)"
  shows "TaskDetail_handleUpdate (Some u) rid title (Some application_id) dueDate completed
           notes now db = (db, Toast_error ''Failed to update task'')"
proof -
  have hit: "tasks_hit (Some u) rid = (\<lambda>t. task_id t = rid \<and> task_user_id t = u)"
    by (auto simp add: tasks_hit_def rls_own_def fun_eq_iff)
  have "list_ex (\<lambda>t. application_id \<noteq> task_application_id t)
          (filter (tasks_hit (Some u) rid) (tasks db))"
    unfolding list_ex_filter hit using assms(3) by (auto simp add: list_ex_iff)
  then have "update_tasks (Some u) rid
          (\<lambda>t. t\<lparr>task_title := trim title, task_application_id := application_id,
                  task_due_date := dueDate, task_completed := completed,
                  task_notes := or_null (trim notes)\<rparr>) now db =
        Inl Foreign_key_violation"
    using assms(2)
    by (simp add: update_tasks_def Let_def update_updated_at_task_def tasks_hit_own)
  then show ?thesis
    using assms(1) by (simp add: TaskDetail_handleUpdate_def)
qed

lemma TaskDetail_handleUpdate_same_parent:
  assumes "taskSchema title notes = []"
    and "\<not> list_ex (\<lambda>t. task_id t = rid \<and> task_user_id t = u \<and>
            task_application_id t \<noteq> application_id) (tasks db)"
  shows "TaskDetail_handleUpdate (Some u) rid title (Some application_id) dueDate completed
           notes now db =
     (db\<lparr>tasks :=
         map (\<lambda>t. if task_id t = rid \<and> task_user_id t = u
                   then t\<lparr>task_title := trim title, task_application_id := application_id,
                          task_due_date := dueDate, task_completed := completed,
                          task_notes := or_null (trim notes), task_updated_at := now\<rparr>
                   else t)
           (tasks db)\<rparr>,
      Toast_success ''Task updated successfully'')"
proof -
  have hit: "tasks_hit (Some u) rid = (\<lambda>t. task_id t = rid \<and> task_user_id t = u)"
    by (auto simp add: tasks_hit_def rls_own_def fun_eq_iff)
  have "\<not> list_ex (\<lambda>t. application_id \<noteq> task_application_id t \<and> P)
          (filter (tasks_hit (Some u) rid) (tasks db))" for P
    unfolding list_ex_filter hit using assms(2) by (auto simp add: list_ex_iff)
  then have "update_tasks (Some u) rid
          (\<lambda>t. t\<lparr>task_title := trim title, task_application_id := application_id,
                  task_due_date := dueDate, task_completed := completed,
                  task_notes := or_null (trim notes)\<rparr>) now db =
        Inr (db\<lparr>tasks :=
         map (\<lambda>t. if tasks_hit (Some u) rid t
                   then t\<lparr>task_title := trim title, task_application_id := application_id,
                          task_due_date := dueDate, task_completed := completed,
                          task_notes := or_null (trim notes), task_updated_at := now\<rparr>
                   else t)
           (tasks db)\<rparr>)"
    by (simp add: update_tasks_def Let_def update_updated_at_task_def tasks_hit_own)
  then show ?thesis
    using assms(1) unfolding hit by (simp add: TaskDetail_handleUpdate_def)
qed

lemma TaskDetail_handleUpdate_no_task:
  assumes "taskSchema title notes = []"
    and "\<not> list_ex (\<lambda>t. task_id t = rid \<and> task_user_id t = u) (tasks db)"
  shows "TaskDetail_handleUpdate (Some u) rid title (Some application_id) dueDate completed
           notes now db = (db, Toast_success ''Task updated successfully'')"
proof -
  from assms(2)
  have "\<not> list_ex (\<lambda>t. task_id t = rid \<and> task_user_id t = u \<and>
            task_application_id t \<noteq> application_id) (tasks db)"
    by (auto simp add: list_ex_iff)
  from TaskDetail_handleUpdate_same_parent [OF assms(1) this]
  show ?thesis
    by (simp add: map_if_none [OF assms(2)])
qed

section \<open>The parent of a task\<close>

text \<open>
  C7 (amended).  Neither \<open>handleSubmit\<close> of the Tasks page nor \<open>handleUpdate\<close> of
  TaskDetail looks at the owner of the parent application, and neither does the storage
  layer.  For a title and notes that pass the schema: a creation by a caller with a
  profile, with a fresh id, succeeds and adds a task of the caller whenever the chosen
  application exists, whoever owns it, and fails with the message of a failed insert,
  leaving the database as it was, when it does not exist.  An update fails with the
  message of a failed update, leaving the database as it was, exactly when the chosen
  application does not exist and the id of the route names a task of the caller with
  another parent; in every other case it reports success and has rewritten the tasks of
  the caller with the id of the route, parent included, which changes nothing when there
  is no such task.
\<close>

theorem task_parent_owner_not_checked:
  assumes "taskSchema title notes = []"
  shows "(u \<in> set (map profile_id (profiles db)) \<and> new_id \<notin> set (map task_id (tasks db)) \<longrightarrow>
      Tasks_handleSubmit (Some u) title (Some application_id) dueDate notes new_id now db =
        (if application_id \<in> set (map app_id (applications db))
         then (db\<lparr>tasks := tasks db @
                 [\<lparr>task_id = new_id, task_application_id = application_id,
                   task_user_id = u, task_title = trim title, task_due_date = dueDate,
                   task_completed = False, task_notes = or_null (trim notes),
                   task_created_at = now, task_updated_at = now\<rparr>]\<rparr>,
               Toast_success ''Task created successfully'')
         else (db, Toast_error ''Failed to create task''))) \<and>
   TaskDetail_handleUpdate (Some u) rid title (Some application_id) dueDate completed
     notes now db =
     (if application_id \<notin> set (map app_id (applications db)) \<and>
         list_ex (\<lambda>t. task_id t = rid \<and> task_user_id t = u \<and>
            task_application_id t \<noteq> application_id) (tasks db)
      then (db, Toast_error ''Failed to update task'')
      else (db\<lparr>tasks :=
               map (\<lambda>t. if task_id t = rid \<and> task_user_id t = u
                         then t\<lparr>task_title := trim title,
                                task_application_id := application_id,
                                task_due_date := dueDate, task_completed := completed,
                                task_notes := or_null (trim notes),
                                task_updated_at := now\<rparr>
                         else t)
                 (tasks db)\<rparr>,
            Toast_success ''Task updated successfully'')) \<and>
   (\<not> list_ex (\<lambda>t. task_id t = rid \<and> task_user_id t = u) (tasks db) \<longrightarrow>
      TaskDetail_handleUpdate (Some u) rid title (Some application_id) dueDate completed
        notes now db = (db, Toast_success ''Task updated successfully''))"
proof (intro conjI impI)
  assume "u \<in> set (map profile_id (profiles db)) \<and> new_id \<notin> set (map task_id (tasks db))"
  then show "Tasks_handleSubmit (Some u) title (Some application_id) dueDate notes new_id
        now db =
        (if application_id \<in> set (map app_id (applications db))
         then (db\<lparr>tasks := tasks db @
                 [\<lparr>task_id = new_id, task_application_id = application_id,
                   task_user_id = u, task_title = trim title, task_due_date = dueDate,
                   task_completed = False, task_notes = or_null (trim notes),
                   task_created_at = now, task_updated_at = now\<rparr>]\<rparr>,
               Toast_success ''Task created successfully'')
         else (db, Toast_error ''Failed to create task''))"
    using Tasks_handleSubmit_eq [OF assms] by blast
next
  show "TaskDetail_handleUpdate (Some u) rid title (Some application_id) dueDate completed
     notes now db =
     (if application_id \<notin> set (map app_id (applications db)) \<and>
         list_ex (\<lambda>t. task_id t = rid \<and> task_user_id t = u \<and>
            task_application_id t \<noteq> application_id) (tasks db)
      then (db, Toast_error ''Failed to update task'')
      else (db\<lparr>tasks :=
               map (\<lambda>t. if task_id t = rid \<and> task_user_id t = u
                         then t\<lparr>task_title := trim title,
                                task_application_id := application_id,
                                task_due_date := dueDate, task_completed := completed,
                                task_notes := or_null (trim notes),
                                task_updated_at := now\<rparr>
                         else t)
                 (tasks db)\<rparr>,
            Toast_success ''Task updated successfully''))"
  proof (cases "application_id \<in> set (map app_id (applications db))")
    case True
    with TaskDetail_handleUpdate_parent_exists [OF assms True] show ?thesis by simp
  next
    case False
    show ?thesis
    proof (cases "list_ex (\<lambda>t. task_id t = rid \<and> task_user_id t = u \<and>
            task_application_id t \<noteq> application_id) (tasks db)")
      case True
      with False TaskDetail_handleUpdate_parent_missing [OF assms False True]
      show ?thesis by simp
    next
      case no: False
      with TaskDetail_handleUpdate_same_parent [OF assms no] show ?thesis by simp
    qed
  qed
next
  assume "\<not> list_ex (\<lambda>t. task_id t = rid \<and> task_user_id t = u) (tasks db)"
  with assms
  show "TaskDetail_handleUpdate (Some u) rid title (Some application_id) dueDate completed
        notes now db = (db, Toast_success ''Task updated successfully'')"
    by (rule TaskDetail_handleUpdate_no_task)
qed

theorem task_parent_owner_not_checked_witness:
  "taskSchema (js ''Peek'') [] = [] \<and>
   1 \<in> set (map profile_id (profiles scenario_db)) \<and>
   41 \<notin> set (map task_id (tasks scenario_db)) \<and>
   app_user_id (applications scenario_db ! 1) = 2 \<and>
   Tasks_handleSubmit (Some 1) (js ''Peek'') (Some 20) None [] 41 8 scenario_db =
     (scenario_db\<lparr>tasks := tasks scenario_db @
        [\<lparr>task_id = 41, task_application_id = 20, task_user_id = 1,
          task_title = js ''Peek'', task_due_date = None, task_completed = False,
          task_notes = None, task_created_at = 8, task_updated_at = 8\<rparr>]\<rparr>,
      Toast_success ''Task created successfully'') \<and>
   Tasks_handleSubmit (Some 1) (js ''Peek'') (Some 99) None [] 41 8 scenario_db =
     (scenario_db, Toast_error ''Failed to create task'') \<and>
   TaskDetail_handleUpdate (Some 1) 30 (js ''Peek'') (Some 20) None False [] 8 scenario_db =
     (scenario_db\<lparr>tasks :=
        [\<lparr>task_id = 30, task_application_id = 20, task_user_id = 1,
          task_title = js ''Peek'', task_due_date = None, task_completed = False,
          task_notes = None, task_created_at = 3, task_updated_at = 8\<rparr>,
         tasks scenario_db ! 1, tasks scenario_db ! 2, tasks scenario_db ! 3]\<rparr>,
      Toast_success ''Task updated successfully'') \<and>
   TaskDetail_handleUpdate (Some 1) 30 (js ''Peek'') (Some 99) None False [] 8 scenario_db =
     (scenario_db, Toast_error ''Failed to update task'') \<and>
   TaskDetail_handleUpdate (Some 1) 33 (js ''Peek'') (Some 99) None False [] 8 scenario_db =
     (scenario_db, Toast_success ''Task updated successfully'')"
proof -
  have s: "taskSchema (js ''Peek'') [] = []"
    by (simp add: taskSchema_def z_min_def z_max_def js_def trim_def is_white_space_def)
  have p: "1 \<in> set (map profile_id (profiles scenario_db)) \<and>
      41 \<notin> set (map task_id (tasks scenario_db))"
    by (simp add: scenario_db_def)
  have ids: "map app_id (applications scenario_db) = [10, 20]"
    by (simp add: scenario_db_def)
  have o: "app_user_id (applications scenario_db ! 1) = 2"
    by (simp add: scenario_db_def)
  have t: "trim (js ''Peek'') = js ''Peek''"
    by (simp add: js_def trim_def is_white_space_def)
  have n: "or_null (trim []) = None"
    by (simp add: or_null_def trim_def)
  have moved: "map (\<lambda>t. if task_id t = 30 \<and> task_user_id t = 1
                         then t\<lparr>task_title := js ''Peek'', task_application_id := 20,
                                task_due_date := None, task_completed := False,
                                task_notes := None, task_updated_at := 8\<rparr>
                         else t)
                 (tasks scenario_db) =
        [\<lparr>task_id = 30, task_application_id = 20, task_user_id = 1,
          task_title = js ''Peek'', task_due_date = None, task_completed = False,
          task_notes = None, task_created_at = 3, task_updated_at = 8\<rparr>,
         tasks scenario_db ! 1, tasks scenario_db ! 2, tasks scenario_db ! 3]"
    by (simp add: scenario_db_def)
  have hit30: "list_ex (\<lambda>t. task_id t = 30 \<and> task_user_id t = 1 \<and> task_application_id t \<noteq> 99)
      (tasks scenario_db)"
    by (simp add: scenario_db_def)
  have miss33: "\<not> list_ex (\<lambda>t. task_id t = 33 \<and> task_user_id t = 1) (tasks scenario_db)"
    by (simp add: scenario_db_def)
  note created = task_parent_owner_not_checked
    [OF s, of 1 scenario_db 41 20 None 8 30 False, THEN conjunct1, THEN mp, OF p]
  note refused = task_parent_owner_not_checked
    [OF s, of 1 scenario_db 41 99 None 8 30 False, THEN conjunct1, THEN mp, OF p]
  note moved_to_20 = task_parent_owner_not_checked
    [OF s, of 1 scenario_db 41 20 None 8 30 False, THEN conjunct2, THEN conjunct1]
  note moved_to_99 = task_parent_owner_not_checked
    [OF s, of 1 scenario_db 41 99 None 8 30 False, THEN conjunct2, THEN conjunct1]
  note no_task = task_parent_owner_not_checked
    [OF s, of 1 scenario_db 41 99 None 8 33 False, THEN conjunct2, THEN conjunct2, THEN mp,
     OF miss33]
  note moved_row = moved_to_20 [unfolded t n moved]
  from created refused moved_row moved_to_99 no_task s p o hit30 show ?thesis
    unfolding t n by (simp add: ids)
qed

text \<open>
  The claim fails in the scenario: application 20 belongs to the second user, and the
  first user both creates a task under it and moves task 30 to it.
\<close>

theorem task_parent_of_other_owner_counterexample:
  "app_id (applications scenario_db ! 1) = 20 \<and>
   app_user_id (applications scenario_db ! 1) = 2 \<and>
   Tasks_handleSubmit (Some 1) (js ''Peek'') (Some 20) None [] 41 8 scenario_db =
     (scenario_db\<lparr>tasks := tasks scenario_db @
        [\<lparr>task_id = 41, task_application_id = 20, task_user_id = 1,
          task_title = js ''Peek'', task_due_date = None, task_completed = False,
          task_notes = None, task_created_at = 8, task_updated_at = 8\<rparr>]\<rparr>,
      Toast_success ''Task created successfully'') \<and>
   snd (TaskDetail_handleUpdate (Some 1) 30 (js ''Call'') (Some 20) (Some 9) False [] 8
     scenario_db) = Toast_success ''Task updated successfully'' \<and>
   map task_application_id (tasks (fst (TaskDetail_handleUpdate (Some 1) 30 (js ''Call'')
     (Some 20) (Some 9) False [] 8 scenario_db))) = [20, 10, 10, 20]"
  by (simp add: scenario_db_def Tasks_handleSubmit_def TaskDetail_handleUpdate_def
      taskSchema_def z_min_def z_max_def js_def trim_def is_white_space_def
      insert_task_def update_tasks_def tasks_hit_def rls_own_def or_null_def
      update_updated_at_task_def)

lemma applicationSchema_notes_long:
  assumes "trim company \<noteq> []" and "length (trim company) \<le> 100"
    and "trim position \<noteq> []" and "length (trim position) \<le> 100"
    and "1000 < length notes"
  shows "applicationSchema company position notes =
     [Zod_issue ''notes'' ''String must contain at most 1000 character(s)'']"
  using assms by (simp add: applicationSchema_def z_min_def z_max_def)

lemma applicationSchema_valid:
  assumes "trim company \<noteq> []" and "length (trim company) \<le> 100"
    and "trim position \<noteq> []" and "length (trim position) \<le> 100"
    and "length notes \<le> 1000"
  shows "applicationSchema company position notes = []"
  using assms by (simp add: applicationSchema_def z_min_def z_max_def)

lemma handleUpdate_updated:
  assumes "applicationSchema company position notes = []" and "valid_status status"
  shows "ApplicationDetail_handleUpdate user rid company position status notes now db =
     (db\<lparr>applications :=
         map (\<lambda>a. if app_id a = rid \<and> user = Some (app_user_id a)
                   then a\<lparr>app_company := trim company, app_position := trim position,
                          app_status := status, app_notes := or_null (trim notes),
                          app_updated_at := now\<rparr>
                   else a)
           (applications db)\<rparr>,
      Toast_success ''Application updated successfully'')"
proof -
  have hit: "applications_hit user rid = (\<lambda>a. app_id a = rid \<and> user = Some (app_user_id a))"
    by (auto simp add: applications_hit_def rls_own_def fun_eq_iff)
  have "update_applications user rid
          (\<lambda>a. a\<lparr>app_company := trim company, app_position := trim position,
                  app_status := status, app_notes := or_null (trim notes)\<rparr>) now db =
        Inr (db\<lparr>applications :=
          map (\<lambda>a. if applications_hit user rid a
                    then a\<lparr>app_company := trim company, app_position := trim position,
                           app_status := status, app_notes := or_null (trim notes),
                           app_updated_at := now\<rparr>
                    else a)
            (applications db)\<rparr>)"
    using assms(2)
    by (simp add: update_applications_def Let_def update_applications_own_rows
        update_applications_status_check)
       (simp add: update_updated_at_application_def)
  then show ?thesis
    using assms(1) unfolding hit by (simp add: ApplicationDetail_handleUpdate_def)
qed

lemma notes_stored:
  "case or_null (trim notes) of
     None \<Rightarrow> \<forall>c \<in> set notes. is_white_space c
   | Some t \<Rightarrow> t \<noteq> [] \<and> stripped notes t"
  by (simp add: or_null_trim stripped_trim) (simp add: trim_Nil_iff)

section \<open>White space\<close>

text \<open>
  C10 (amended).  Creating and updating an application.  Company and position are
  trimmed before they are validated: a company or position of white space only is
  rejected with the message of an empty one.  Notes are validated as entered: more than
  1000 characters, white space included, are rejected.  A form that passes the schema,
  with a status of the enum, is written: an update succeeds and writes to the caller's
  row with the id of the route, a creation by a caller with a profile and with a fresh id
  succeeds and adds a row.  What is written as company and position is the input without
  its leading and trailing white space; what is written as notes is null when the notes
  are empty or white space only, and the notes without their leading and trailing white
  space otherwise.
\<close>

theorem application_input_whitespace_normalised:
  "((\<forall>c \<in> set company. is_white_space c) \<longrightarrow>
      Applications_handleSubmit user company position status notes new_id now db =
        (db, Toast_error ''Company name is required'') \<and>
      ApplicationDetail_handleUpdate user rid company position status notes now db =
        (db, Toast_error ''Company name is required'')) \<and>
   (trim company \<noteq> [] \<and> length (trim company) \<le> 100 \<and>
    (\<forall>c \<in> set position. is_white_space c) \<longrightarrow>
      Applications_handleSubmit user company position status notes new_id now db =
        (db, Toast_error ''Position is required'') \<and>
      ApplicationDetail_handleUpdate user rid company position status notes now db =
        (db, Toast_error ''Position is required'')) \<and>
   (trim company \<noteq> [] \<and> length (trim company) \<le> 100 \<and>
    trim position \<noteq> [] \<and> length (trim position) \<le> 100 \<and> 1000 < length notes \<longrightarrow>
      Applications_handleSubmit user company position status notes new_id now db =
        (db, Toast_error ''String must contain at most 1000 character(s)'') \<and>
      ApplicationDetail_handleUpdate user rid company position status notes now db =
        (db, Toast_error ''String must contain at most 1000 character(s)'')) \<and>
   (trim company \<noteq> [] \<and> length (trim company) \<le> 100 \<and>
    trim position \<noteq> [] \<and> length (trim position) \<le> 100 \<and> length notes \<le> 1000 \<and>
    valid_status status \<longrightarrow>
      ApplicationDetail_handleUpdate user rid company position status notes now db =
        (db\<lparr>applications :=
            map (\<lambda>a. if app_id a = rid \<and> user = Some (app_user_id a)
                      then a\<lparr>app_company := trim company, app_position := trim position,
                             app_status := status, app_notes := or_null (trim notes),
                             app_updated_at := now\<rparr>
                      else a)
              (applications db)\<rparr>,
         Toast_success ''Application updated successfully'') \<and>
      (user = Some u \<and> u \<in> set (map profile_id (profiles db)) \<and>
       new_id \<notin> set (map app_id (applications db)) \<longrightarrow>
         Applications_handleSubmit user company position status notes new_id now db =
           (db\<lparr>applications := applications db @
               [\<lparr>app_id = new_id, app_user_id = u, app_company = trim company,
                 app_position = trim position, app_status = status,
                 app_notes = or_null (trim notes), app_created_at = now,
                 app_updated_at = now\<rparr>]\<rparr>,
            Toast_success ''Application created successfully''))) \<and>
   stripped company (trim company) \<and> stripped position (trim position) \<and>
   (case or_null (trim notes) of
      None \<Rightarrow> \<forall>c \<in> set notes. is_white_space c
    | Some t \<Rightarrow> t \<noteq> [] \<and> stripped notes t)"
proof (intro conjI impI)
  assume "\<forall>c \<in> set company. is_white_space c"
  then have e: "trim company = []" by (simp add: trim_Nil_iff)
  show "Applications_handleSubmit user company position status notes new_id now db =
        (db, Toast_error ''Company name is required'')"
    using handleSubmit_invalid [OF applicationSchema_company_empty [OF e]] by simp
  show "ApplicationDetail_handleUpdate user rid company position status notes now db =
        (db, Toast_error ''Company name is required'')"
    using handleUpdate_invalid [OF applicationSchema_company_empty [OF e]] by simp
next
  assume a: "trim company \<noteq> [] \<and> length (trim company) \<le> 100 \<and>
    (\<forall>c \<in> set position. is_white_space c)"
  then have e: "trim position = []" by (simp add: trim_Nil_iff)
  from a have s: "applicationSchema company position notes =
     Zod_issue ''position'' ''Position is required'' #
       z_max ''notes'' 1000 ''String must contain at most 1000 character(s)'' notes"
    using applicationSchema_position_empty [OF _ _ e] by blast
  show "Applications_handleSubmit user company position status notes new_id now db =
        (db, Toast_error ''Position is required'')"
    using handleSubmit_invalid [OF s] by simp
  show "ApplicationDetail_handleUpdate user rid company position status notes now db =
        (db, Toast_error ''Position is required'')"
    using handleUpdate_invalid [OF s] by simp
next
  assume "trim company \<noteq> [] \<and> length (trim company) \<le> 100 \<and>
    trim position \<noteq> [] \<and> length (trim position) \<le> 100 \<and> 1000 < length notes"
  then have s: "applicationSchema company position notes =
     [Zod_issue ''notes'' ''String must contain at most 1000 character(s)'']"
    by (simp add: applicationSchema_notes_long)
  show "Applications_handleSubmit user company position status notes new_id now db =
        (db, Toast_error ''String must contain at most 1000 character(s)'')"
    using handleSubmit_invalid [OF s] by simp
  show "ApplicationDetail_handleUpdate user rid company position status notes now db =
        (db, Toast_error ''String must contain at most 1000 character(s)'')"
    using handleUpdate_invalid [OF s] by simp
next
  assume v: "trim company \<noteq> [] \<and> length (trim company) \<le> 100 \<and>
    trim position \<noteq> [] \<and> length (trim position) \<le> 100 \<and> length notes \<le> 1000 \<and>
    valid_status status"
  then have s: "applicationSchema company position notes = []"
    by (simp add: applicationSchema_valid)
  from v have st: "valid_status status" by simp
  show "ApplicationDetail_handleUpdate user rid company position status notes now db =
        (db\<lparr>applications :=
            map (\<lambda>a. if app_id a = rid \<and> user = Some (app_user_id a)
                      then a\<lparr>app_company := trim company, app_position := trim position,
                             app_status := status, app_notes := or_null (trim notes),
                             app_updated_at := now\<rparr>
                      else a)
              (applications db)\<rparr>,
         Toast_success ''Application updated successfully'')"
    using s st by (rule handleUpdate_updated)
  assume c: "user = Some u \<and> u \<in> set (map profile_id (profiles db)) \<and>
       new_id \<notin> set (map app_id (applications db))"
  then have "Applications_handleSubmit (Some u) company position status notes new_id now db =
           (db\<lparr>applications := applications db @
               [\<lparr>app_id = new_id, app_user_id = u, app_company = trim company,
                 app_position = trim position, app_status = status,
                 app_notes = or_null (trim notes), app_created_at = now,
                 app_updated_at = now\<rparr>]\<rparr>,
            Toast_success ''Application created successfully'')"
    using s st by (simp add: handleSubmit_created)
  with c show "Applications_handleSubmit user company position status notes new_id now db =
           (db\<lparr>applications := applications db @
               [\<lparr>app_id = new_id, app_user_id = u, app_company = trim company,
                 app_position = trim position, app_status = status,
                 app_notes = or_null (trim notes), app_created_at = now,
                 app_updated_at = now\<rparr>]\<rparr>,
            Toast_success ''Application created successfully'')"
    by simp
next
  show "stripped company (trim company)" and "stripped position (trim position)"
    by (rule stripped_trim)+
  show "case or_null (trim notes) of
      None \<Rightarrow> \<forall>c \<in> set notes. is_white_space c
    | Some t \<Rightarrow> t \<noteq> [] \<and> stripped notes t"
    by (rule notes_stored)
qed

theorem application_input_whitespace_normalised_witness:
  "list_all is_white_space (js ''  '') \<and>
   ApplicationDetail_handleUpdate (Some 1) 10 (js ''  '') (js ''Engineer'') ''offer'' [] 50
     scenario_db = (scenario_db, Toast_error ''Company name is required'') \<and>
   ApplicationDetail_handleUpdate (Some 1) 10 (js '' Acme '') (js ''Engineer '') ''offer''
     (js ''  '') 50 scenario_db =
     (scenario_db\<lparr>applications :=
        [\<lparr>app_id = 10, app_user_id = 1, app_company = js ''Acme'',
          app_position = js ''Engineer'', app_status = ''offer'', app_notes = None,
          app_created_at = 1, app_updated_at = 50\<rparr>,
         applications scenario_db ! 1]\<rparr>,
      Toast_success ''Application updated successfully'') \<and>
   Applications_handleSubmit (Some 1) (js '' Acme '') (js ''Engineer '') ''offer''
     (js ''  '') 40 50 scenario_db =
     (scenario_db\<lparr>applications := applications scenario_db @
        [\<lparr>app_id = 40, app_user_id = 1, app_company = js ''Acme'',
          app_position = js ''Engineer'', app_status = ''offer'', app_notes = None,
          app_created_at = 50, app_updated_at = 50\<rparr>]\<rparr>,
      Toast_success ''Application created successfully'')"
proof -
  have blank: "\<forall>c \<in> set (js ''  ''). is_white_space c"
    by (simp add: js_def is_white_space_def)
  have tc: "trim (js '' Acme '') = js ''Acme''"
    and tp: "trim (js ''Engineer '') = js ''Engineer''"
    and tn: "or_null (trim (js ''  '')) = None"
    by (simp_all add: js_def trim_def is_white_space_def or_null_def)
  have valid: "trim (js '' Acme '') \<noteq> [] \<and> length (trim (js '' Acme '')) \<le> 100 \<and>
    trim (js ''Engineer '') \<noteq> [] \<and> length (trim (js ''Engineer '')) \<le> 100 \<and>
    length (js ''  '') \<le> 1000 \<and> valid_status ''offer''"
    unfolding tc tp by (simp add: js_def valid_status_def)
  have caller: "Some 1 = Some 1 \<and> 1 \<in> set (map profile_id (profiles scenario_db)) \<and>
       40 \<notin> set (map app_id (applications scenario_db))"
    by (simp add: scenario_db_def)
  note rejected = application_input_whitespace_normalised
    [of "js ''  ''" "Some 1" "js ''Engineer''" "''offer''" "[]" 40 50 scenario_db 10 1,
     THEN conjunct1, THEN mp, OF blank, THEN conjunct2]
  note written = application_input_whitespace_normalised
    [of "js '' Acme ''" "Some 1" "js ''Engineer ''" "''offer''" "js ''  ''" 40 50 scenario_db
       10 1,
     THEN conjunct2, THEN conjunct2, THEN conjunct2, THEN conjunct1, THEN mp, OF valid]
  note updated = written [THEN conjunct1]
  note created = written [THEN conjunct2, THEN mp, OF caller]
  have rows: "map (\<lambda>a. if app_id a = 10 \<and> Some 1 = Some (app_user_id a)
                      then a\<lparr>app_company := js ''Acme'', app_position := js ''Engineer'',
                             app_status := ''offer'', app_notes := None,
                             app_updated_at := 50\<rparr>
                      else a)
              (applications scenario_db) =
        [\<lparr>app_id = 10, app_user_id = 1, app_company = js ''Acme'',
          app_position = js ''Engineer'', app_status = ''offer'', app_notes = None,
          app_created_at = 1, app_updated_at = 50\<rparr>,
         applications scenario_db ! 1]"
    by (simp add: scenario_db_def)
  have "list_all is_white_space (js ''  '')"
    using blank by (simp add: list_all_iff)
  with rejected updated created show ?thesis
    unfolding tc tp tn rows by simp
qed

text \<open>
  The claim fails for notes of 1001 spaces: trimmed they are empty, but they are
  validated as entered, so nothing is stored and the toast is the message of the length
  bound.
\<close>

theorem notes_validated_untrimmed_counterexample:
  "trim (replicate 1001 32) = [] \<and>
   Applications_handleSubmit (Some 1) (js ''Acme'') (js ''Engineer'') ''applied''
     (replicate 1001 32) 40 6 scenario_db =
     (scenario_db, Toast_error ''String must contain at most 1000 character(s)'') \<and>
   ApplicationDetail_handleUpdate (Some 1) 10 (js ''Acme'') (js ''Engineer'') ''applied''
     (replicate 1001 32) 6 scenario_db =
     (scenario_db, Toast_error ''String must contain at most 1000 character(s)'')"
proof -
  have "trim (replicate 1001 32) = []"
    by (simp add: trim_Nil_iff is_white_space_def)
  moreover have tc: "trim (js ''Acme'') = js ''Acme''"
    and tp: "trim (js ''Engineer'') = js ''Engineer''"
    by (simp_all add: js_def trim_def is_white_space_def)
  have "applicationSchema (js ''Acme'') (js ''Engineer'') (replicate 1001 32) =
     [Zod_issue ''notes'' ''String must contain at most 1000 character(s)'']"
    unfolding applicationSchema_def tc tp by (simp add: z_min_def z_max_def js_def)
  then have "Applications_handleSubmit (Some 1) (js ''Acme'') (js ''Engineer'') ''applied''
       (replicate 1001 32) 40 6 scenario_db =
       (scenario_db, Toast_error ''String must contain at most 1000 character(s)'')"
    and "ApplicationDetail_handleUpdate (Some 1) 10 (js ''Acme'') (js ''Engineer'') ''applied''
       (replicate 1001 32) 6 scenario_db =
       (scenario_db, Toast_error ''String must contain at most 1000 character(s)'')"
    by (simp_all add: Applications_handleSubmit_def ApplicationDetail_handleUpdate_def)
  ultimately show ?thesis by simp
qed

end
